theory Spec2Isabelle
  imports Complex_Main "HOL-Library.Word"
begin

section \<open>Speech-to-text recorder: the logic of \<^verbatim>\<open>src/App.tsx\<close>\<close>

text \<open>
  The component \<^verbatim>\<open>App\<close> keeps its React state, its refs and the browser objects it
  talks to (local storage, the remote table, timers, toasts). The embedding puts all of
  them into one record and turns each handler into a function from the state it sees to
  the state it leaves behind. What the browser or the backend decides (the clock, whether
  a remote call is rejected, whether \<^verbatim>\<open>localStorage.setItem\<close> throws, what the
  analyser measures) is read from an \<open>env\<close> record, so that every \<^verbatim>\<open>catch\<close> block of
  the source is a branch of the model. A handler reads the React state of the render it
  was created in; the model applies it to the state it is given. The flag
  \<^verbatim>\<open>loading\<close> only selects what is rendered and is left out. The backend
  (\<^verbatim>\<open>blink.db\<close>, \<^verbatim>\<open>blink.ai\<close>) is outside the repository: the remote table is a
  list of rows that a successful \<^verbatim>\<open>create\<close> extends and a successful \<^verbatim>\<open>delete\<close>
  filters.
\<close>

subsection \<open>JavaScript numbers and strings\<close>

text \<open>
  A JavaScript number is an IEEE-754 double. The integral numbers of the program
  (durations, clock readings) are \<open>int\<close>; the integers a number can hold are those
  \<open>is_number\<close> accepts. Where the source divides, the quotient is the double nearest to
  the exact quotient, kept as a pair \<open>(m, e)\<close> that stands for \<open>m * 2 ^ e\<close>. The audio
  level is a fraction of small integers: it is a \<open>real\<close>, or \<open>NaN\<close> where the source
  divides zero by zero.
\<close>

datatype jsnum = Num real | NaN

fun js_div :: "jsnum \<Rightarrow> real \<Rightarrow> jsnum" where
  "js_div NaN d = NaN"
| "js_div (Num x) d = (if d = 0 then NaN else Num (x / d))"

fun js_mul :: "jsnum \<Rightarrow> real \<Rightarrow> jsnum" where
  "js_mul NaN m = NaN"
| "js_mul (Num x) m = Num (x * m)"

text \<open>\<^verbatim>\<open>Math.min(c, x)\<close>: \<open>NaN\<close> as soon as an argument is.\<close>

fun math_min :: "real \<Rightarrow> jsnum \<Rightarrow> jsnum" where
  "math_min c NaN = NaN"
| "math_min c (Num x) = Num (min c x)"

text \<open>The number of binary digits of a positive integer.\<close>

function bit_length :: "int \<Rightarrow> nat" where
  "bit_length k = (if k \<le> 0 then 0 else Suc (bit_length (k div 2)))"
  by pat_completeness auto
termination
  by (relation "measure nat") auto

declare bit_length.simps [simp del]

text \<open>
  An integer is a number when its magnitude is below \<open>2 ^ 1024\<close> and fits a mantissa of
  53 binary digits. Every integer up to \<open>2 ^ 53\<close> in magnitude is one.
\<close>

definition is_number :: "int \<Rightarrow> bool" where
  "is_number n = (\<bar>n\<bar> < 2 ^ 1024 \<and> 2 ^ (bit_length \<bar>n\<bar> - 53) dvd \<bar>n\<bar>)"

text \<open>The integer nearest to \<open>a / b\<close>, a tie going to the even one (\<open>0 \<le> a\<close>, \<open>0 < b\<close>).\<close>

definition round_half_even :: "int \<Rightarrow> int \<Rightarrow> int" where
  "round_half_even a b =
     (let q = a div b; r = a mod b
      in if b < 2 * r \<or> (2 * r = b \<and> odd q) then q + 1 else q)"

text \<open>
  The double nearest to \<open>a / d\<close> for \<open>0 \<le> a\<close> and \<open>0 < d\<close>: the exponent \<open>e = s - K\<close>
  is chosen so that \<open>a / d / 2 ^ e\<close> has 53 binary digits before the point, and the
  mantissa is that value rounded to the nearest integer, ties to even. (Quotients of
  numbers by 60 are neither subnormal nor infinite.)
\<close>

definition double_div :: "int \<Rightarrow> int \<Rightarrow> int \<times> int" where
  "double_div a d =
     (let K = 53 + bit_length d;
          N = a * 2 ^ K;
          s = bit_length (N div d) - 53
      in (round_half_even N (d * 2 ^ s), int s - int K))"

text \<open>The operator \<^verbatim>\<open>/\<close> on an integral number and a positive integral divisor.\<close>

definition js_divide :: "int \<Rightarrow> int \<Rightarrow> int \<times> int" where
  "js_divide n d = (case double_div \<bar>n\<bar> d of (m, e) \<Rightarrow> (sgn n * m, e))"

text \<open>\<^verbatim>\<open>Math.floor\<close> of the double \<open>m * 2 ^ e\<close>.\<close>

definition math_floor :: "int \<times> int \<Rightarrow> int" where
  "math_floor x = (case x of (m, e) \<Rightarrow> if 0 \<le> e then m * 2 ^ nat e else m div 2 ^ nat (- e))"

definition digit_char :: "nat \<Rightarrow> char" where
  "digit_char d = ''0123456789'' ! (d mod 10)"

fun nat_toString :: "nat \<Rightarrow> string" where
  "nat_toString n =
     (if n < 10 then [digit_char n] else nat_toString (n div 10) @ [digit_char (n mod 10)])"

declare nat_toString.simps [simp del]

text \<open>The decimal expansion of an integer.\<close>

definition decimal :: "int \<Rightarrow> string" where
  "decimal k = (if k < 0 then CHR ''-'' # nat_toString (nat (- k)) else nat_toString (nat k))"

text \<open>
  \<^verbatim>\<open>Number.prototype.toString()\<close> on an integral number. Up to the largest safe
  integer \<open>2 ^ 53 - 1\<close> it is the decimal expansion. Beyond, the source prints the
  shortest digits that identify the double, padded with zeros, and exponent notation
  from \<open>10 ^ 21\<close>; the model has no string for those and answers \<open>None\<close>.
\<close>

definition number_toString :: "int \<Rightarrow> string option" where
  "number_toString k = (if \<bar>k\<bar> \<le> 9007199254740991 then Some (decimal k) else None)"

text \<open>\<^verbatim>\<open>s.padStart(n, c)\<close> with a one-character filler.\<close>

definition padStart :: "nat \<Rightarrow> char \<Rightarrow> string \<Rightarrow> string" where
  "padStart n c s = replicate (n - length s) c @ s"

text \<open>
  The remainder operator \<^verbatim>\<open>%\<close> of JavaScript takes the sign of the dividend; on
  doubles it is exact.
\<close>

definition js_rem :: "int \<Rightarrow> int \<Rightarrow> int" where
  "js_rem a b = sgn a * (\<bar>a\<bar> mod \<bar>b\<bar>)"

subsection \<open>\<^verbatim>\<open>formatDuration\<close>\<close>

text \<open>
  \<^verbatim>\<open>const mins = Math.floor(seconds / 60); const secs = seconds % 60;
  return `${mins}:${secs.toString().padStart(2, '0')}`\<close>
\<close>

definition formatDuration :: "int \<Rightarrow> string option" where
  "formatDuration seconds =
     (let mins = math_floor (js_divide seconds 60);
          secs = js_rem seconds 60
      in case number_toString mins of
           None \<Rightarrow> None
         | Some m \<Rightarrow>
             (case number_toString secs of
                None \<Rightarrow> None
              | Some s \<Rightarrow> Some (m @ '':'' @ padStart 2 (CHR ''0'') s)))"

text \<open>
  The format as the specification words it: the minutes \<open>\<lfloor>D / 60\<rfloor>\<close> in decimal, a colon,
  and the two decimal digits of \<open>D mod 60\<close>.
\<close>

definition two_digits :: "nat \<Rightarrow> string" where
  "two_digits r = [digit_char (r div 10), digit_char (r mod 10)]"

definition spec_formatDuration :: "nat \<Rightarrow> string" where
  "spec_formatDuration D = nat_toString (D div 60) @ '':'' @ two_digits (D mod 60)"

subsection \<open>Sessions, rows and the JSON kept in local storage\<close>

text \<open>
  \<^verbatim>\<open>interface TranscriptionSession { id; text; timestamp; language; duration }\<close>.
  A \<^verbatim>\<open>Date\<close> is the number of milliseconds it holds.
\<close>

record transcription_session =
  s_id :: string
  s_text :: string
  s_timestamp :: int
  s_language :: string
  s_duration :: int

text \<open>A row of the remote table \<^verbatim>\<open>blink.db.transcriptionSessions\<close>.\<close>

record db_row =
  row_id :: string
  row_userId :: string
  row_text :: string
  row_language :: string
  row_duration :: int
  row_createdAt :: int

text \<open>
  Local storage holds JSON text. A stored text is represented by the JSON value it
  denotes; \<open>JDate t\<close> is the string that \<^verbatim>\<open>Date.prototype.toJSON\<close> gives for the
  instant \<open>t\<close>.
\<close>

datatype json =
    JNull
  | JNumber int
  | JString string
  | JDate int
  | JArray "json list"
  | JObject "(string \<times> json) list"

definition session_to_json :: "transcription_session \<Rightarrow> json" where
  "session_to_json s =
     JObject [(''id'', JString (s_id s)), (''text'', JString (s_text s)),
              (''timestamp'', JDate (s_timestamp s)), (''language'', JString (s_language s)),
              (''duration'', JNumber (s_duration s))]"

text \<open>\<^verbatim>\<open>JSON.stringify(sessions)\<close>\<close>

definition stringify_sessions :: "transcription_session list \<Rightarrow> json" where
  "stringify_sessions ss = JArray (map session_to_json ss)"

fun json_string :: "json option \<Rightarrow> string option" where
  "json_string (Some (JString x)) = Some x"
| "json_string _ = None"

fun json_instant :: "json option \<Rightarrow> int option" where
  "json_instant (Some (JDate t)) = Some t"
| "json_instant _ = None"

fun json_number :: "json option \<Rightarrow> int option" where
  "json_number (Some (JNumber n)) = Some n"
| "json_number _ = None"

definition session_of_fields :: "(string \<times> json) list \<Rightarrow> transcription_session option" where
  "session_of_fields fs =
     (case json_string (map_of fs ''id'') of None \<Rightarrow> None | Some i \<Rightarrow>
     (case json_string (map_of fs ''text'') of None \<Rightarrow> None | Some t \<Rightarrow>
     (case json_instant (map_of fs ''timestamp'') of None \<Rightarrow> None | Some ts \<Rightarrow>
     (case json_string (map_of fs ''language'') of None \<Rightarrow> None | Some l \<Rightarrow>
     (case json_number (map_of fs ''duration'') of None \<Rightarrow> None | Some d \<Rightarrow>
        Some \<lparr>s_id = i, s_text = t, s_timestamp = ts, s_language = l, s_duration = d\<rparr>)))))"

fun session_of_json :: "json \<Rightarrow> transcription_session option" where
  "session_of_json (JObject fs) = session_of_fields fs"
| "session_of_json _ = None"

text \<open>
  \<^verbatim>\<open>JSON.parse(stored)\<close> followed by \<^verbatim>\<open>sessions.map(session => ({...session,
  timestamp: new Date(session.timestamp)}))\<close>. On a value that is not an array
  \<^verbatim>\<open>sessions.map\<close> throws. An array entry that is not a session record has no
  counterpart in the typed list of the model; the model lets the load fail there too.
\<close>

fun parse_sessions :: "json \<Rightarrow> transcription_session list option" where
  "parse_sessions (JArray js) = those (map session_of_json js)"
| "parse_sessions _ = None"

subsection \<open>The state of the component and of the browser around it\<close>

datatype toast = Toast_success string | Toast_error string

text \<open>The \<^verbatim>\<open>state\<close> attribute of a \<^verbatim>\<open>MediaRecorder\<close>, and of an \<^verbatim>\<open>AudioContext\<close>.\<close>

datatype recorder_state = Inactive | Recording | Paused

datatype context_state = Running | Closed

datatype dom_error = InvalidStateError

record analyser =
  fftSize :: nat

definition frequencyBinCount :: "analyser \<Rightarrow> nat" where
  "frequencyBinCount a = fftSize a div 2"

text \<open>
  The first group of fields is the React state, the second the refs, the third what lives
  outside the component: local storage, the remote table, the toasts and console lines
  shown so far, the running interval timers and requested animation frames, the requests
  sent to the transcription service, and the arguments \<^verbatim>\<open>setIsTranscribing\<close> was
  called with. A \<^verbatim>\<open>MediaStream\<close> is the flag "its tracks are live".
\<close>

record app_state =
  user :: "string option"
  isRecording :: bool
  isPaused :: bool
  transcriptionText :: string
  isTranscribing :: bool
  selectedLanguage :: string
  recordingDuration :: int
  audioLevel :: jsnum
  sessions :: "transcription_session list"
  mediaRecorderRef :: "recorder_state option"
  audioChunksRef :: "string list"
  streamRef :: "bool option"
  audioContextRef :: "context_state option"
  analyserRef :: "analyser option"
  animationFrameRef :: "nat option"
  durationIntervalRef :: "nat option"
  localStorage :: "string \<rightharpoonup> json"
  remote :: "db_row list"
  toasts :: "toast list"
  console :: "string list"
  activeIntervals :: "nat list"
  pendingFrames :: "nat list"
  nextHandle :: nat
  transcribeCalls :: "(string \<times> string) list"
  setIsTranscribingCalls :: "bool list"

text \<open>
  What the surroundings decide during one handler: the clock, the random suffix of a
  generated id, the id the remote \<^verbatim>\<open>create\<close> answers with (\<open>None\<close>: it rejects),
  whether the remote \<^verbatim>\<open>delete\<close> and \<^verbatim>\<open>list\<close> succeed, whether
  \<^verbatim>\<open>localStorage.setItem\<close> throws, whether the microphone is granted and the recorder
  can be built, the bytes the analyser delivers, the outcome of reading the blob as a
  data URL (\<open>None\<close>: the reader fails) and of the transcription (\<open>None\<close>: it rejects).
\<close>

record env =
  now :: int
  random_suffix :: string
  db_create :: "string option"
  db_delete_ok :: bool
  db_list_ok :: bool
  setItem_throws :: bool
  getUserMedia_ok :: bool
  recorder_ok :: bool
  frequencyData :: "8 word list"
  readAsDataURL :: "string \<Rightarrow> string option"
  transcribeAudio :: "string \<Rightarrow> string \<Rightarrow> string option"

definition toast_success :: "string \<Rightarrow> app_state \<Rightarrow> app_state" where
  "toast_success msg st = st\<lparr>toasts := toasts st @ [Toast_success msg]\<rparr>"

definition toast_error :: "string \<Rightarrow> app_state \<Rightarrow> app_state" where
  "toast_error msg st = st\<lparr>toasts := toasts st @ [Toast_error msg]\<rparr>"

definition console_error :: "string \<Rightarrow> app_state \<Rightarrow> app_state" where
  "console_error msg st = st\<lparr>console := console st @ [msg]\<rparr>"

subsection \<open>The session store\<close>

text \<open>The key \<^verbatim>\<open>`transcription_sessions_${user.id}`\<close>.\<close>

definition storage_key :: "string \<Rightarrow> string" where
  "storage_key uid = ''transcription_sessions_'' @ uid"

text \<open>
  \<^verbatim>\<open>loadSessionsFromLocalStorage\<close>: everything is inside \<^verbatim>\<open>try\<close>; reading
  \<^verbatim>\<open>user.id\<close> of a null user, or a stored value that cannot be mapped, ends in the
  \<^verbatim>\<open>catch\<close> block, which only logs.
\<close>

definition loadSessionsFromLocalStorage :: "app_state \<Rightarrow> app_state" where
  "loadSessionsFromLocalStorage st =
     (case user st of
        None \<Rightarrow> console_error ''Failed to load sessions from local storage:'' st
      | Some uid \<Rightarrow>
          (case localStorage st (storage_key uid) of
             None \<Rightarrow> st
           | Some stored \<Rightarrow>
               (case parse_sessions stored of
                  Some ss \<Rightarrow> st\<lparr>sessions := ss\<rparr>
                | None \<Rightarrow> console_error ''Failed to load sessions from local storage:'' st)))"

definition session_of_row :: "db_row \<Rightarrow> transcription_session" where
  "session_of_row r =
     \<lparr>s_id = row_id r, s_text = row_text r, s_timestamp = row_createdAt r,
      s_language = row_language r, s_duration = row_duration r\<rparr>"

text \<open>
  The remote query \<^verbatim>\<open>list({where: {userId}, orderBy: {createdAt: 'desc'}, limit: 10})\<close>.
\<close>

definition db_list :: "string \<Rightarrow> db_row list \<Rightarrow> db_row list" where
  "db_list uid rows = take 10 (rev (sort_key row_createdAt (filter (\<lambda>r. row_userId r = uid) rows)))"

definition loadSessions :: "app_state \<Rightarrow> env \<Rightarrow> app_state" where
  "loadSessions st e =
     (case user st of
        None \<Rightarrow> loadSessionsFromLocalStorage (console_error ''Failed to load sessions from database:'' st)
      | Some uid \<Rightarrow>
          if db_list_ok e then st\<lparr>sessions := map session_of_row (db_list uid (remote st))\<rparr>
          else loadSessionsFromLocalStorage (console_error ''Failed to load sessions from database:'' st))"

text \<open>
  The auth listener stores the user; the effect that depends on \<^verbatim>\<open>user\<close> then loads
  the sessions of a signed-in user.
\<close>

definition onAuthStateChanged :: "string option \<Rightarrow> app_state \<Rightarrow> env \<Rightarrow> app_state" where
  "onAuthStateChanged u st e =
     (let st1 = st\<lparr>user := u\<rparr>
      in case u of None \<Rightarrow> st1 | Some uid \<Rightarrow> loadSessions st1 e)"

text \<open>
  \<^verbatim>\<open>saveSessionsToLocalStorage\<close>: \<^verbatim>\<open>try { localStorage.setItem(key,
  JSON.stringify(sessions)) } catch (error) { console.error(...) }\<close>.
\<close>

definition saveSessionsToLocalStorage :: "app_state \<Rightarrow> env \<Rightarrow> transcription_session list \<Rightarrow> app_state" where
  "saveSessionsToLocalStorage st e ss =
     (case user st of
        None \<Rightarrow> console_error ''Failed to save sessions to local storage:'' st
      | Some uid \<Rightarrow>
          if setItem_throws e then console_error ''Failed to save sessions to local storage:'' st
          else st\<lparr>localStorage := (localStorage st)(storage_key uid \<mapsto> stringify_sessions ss)\<rparr>)"

text \<open>
  The record \<^verbatim>\<open>saveSession\<close> builds before it tries the remote table. The three clock
  readings of the source (in the id, the timestamp and \<^verbatim>\<open>createdAt\<close>) are one reading
  here. A time value is a safe integer, so \<^verbatim>\<open>Date.now()\<close> is printed in the id as
  its decimal expansion.
\<close>

definition newSession :: "app_state \<Rightarrow> env \<Rightarrow> string \<Rightarrow> int \<Rightarrow> transcription_session" where
  "newSession st e text duration =
     \<lparr>s_id = ''session_'' @ decimal (now e) @ ''_'' @ random_suffix e,
      s_text = text, s_timestamp = now e, s_language = selectedLanguage st, s_duration = duration\<rparr>"

text \<open>
  The remote \<^verbatim>\<open>create\<close> inside \<^verbatim>\<open>try\<close>: it fails when \<^verbatim>\<open>user\<close> is null (reading
  \<^verbatim>\<open>user.id\<close> throws) or when the backend rejects; otherwise the table gains the row
  and the call answers with the row's id.
\<close>

definition remote_create :: "app_state \<Rightarrow> env \<Rightarrow> string \<Rightarrow> int \<Rightarrow> (string \<times> db_row) option" where
  "remote_create st e text duration =
     (case user st of
        None \<Rightarrow> None
      | Some uid \<Rightarrow>
          (case db_create e of
             None \<Rightarrow> None
           | Some dbid \<Rightarrow>
               Some (dbid, \<lparr>row_id = dbid, row_userId = uid, row_text = text,
                            row_language = selectedLanguage st, row_duration = duration,
                            row_createdAt = now e\<rparr>)))"

definition saveSession :: "app_state \<Rightarrow> env \<Rightarrow> string \<Rightarrow> int \<Rightarrow> app_state" where
  "saveSession st e text duration =
     (case remote_create st e text duration of
        Some (dbid, row) \<Rightarrow>
          toast_success ''Session saved!''
            (st\<lparr>remote := remote st @ [row],
                sessions := (newSession st e text duration)\<lparr>s_id := dbid\<rparr> # take 9 (sessions st)\<rparr>)
      | None \<Rightarrow>
          (let st1 = console_error ''Failed to save session to database:'' st;
               updatedSessions = newSession st e text duration # take 9 (sessions st);
               st2 = st1\<lparr>sessions := updatedSessions\<rparr>;
               st3 = saveSessionsToLocalStorage st2 e updatedSessions
           in toast_success ''Session saved locally!'' st3))"

text \<open>
  \<^verbatim>\<open>deleteSession\<close>: the remote \<^verbatim>\<open>delete\<close> first; when it rejects, the filtered list
  is written to local storage instead.
\<close>

definition deleteSession :: "app_state \<Rightarrow> env \<Rightarrow> string \<Rightarrow> app_state" where
  "deleteSession st e sessionId =
     (if db_delete_ok e then
        (let st1 = st\<lparr>remote := filter (\<lambda>r. row_id r \<noteq> sessionId) (remote st)\<rparr>;
             updatedSessions = filter (\<lambda>s. s_id s \<noteq> sessionId) (sessions st);
             st2 = st1\<lparr>sessions := updatedSessions\<rparr>
         in toast_success ''Session deleted!'' st2)
      else
        (let st1 = console_error ''Failed to delete session from database:'' st;
             updatedSessions = filter (\<lambda>s. s_id s \<noteq> sessionId) (sessions st);
             st2 = st1\<lparr>sessions := updatedSessions\<rparr>;
             st3 = saveSessionsToLocalStorage st2 e updatedSessions
         in toast_success ''Session deleted locally!'' st3))"

subsection \<open>Timers and animation frames\<close>

text \<open>
  \<^verbatim>\<open>setInterval\<close> and \<^verbatim>\<open>requestAnimationFrame\<close> hand out fresh handles. The
  source tests a handle with \<^verbatim>\<open>if (ref.current)\<close>, which is false for \<^verbatim>\<open>null\<close> and
  for \<open>0\<close>.
\<close>

fun truthy :: "nat option \<Rightarrow> bool" where
  "truthy None = False"
| "truthy (Some k) = (k \<noteq> 0)"

text \<open>
  \<^verbatim>\<open>durationIntervalRef.current = setInterval(() => setRecordingDuration(prev =>
  prev + 1), 1000)\<close>
\<close>

definition start_duration_interval :: "app_state \<Rightarrow> app_state" where
  "start_duration_interval st =
     (let k = nextHandle st
      in st\<lparr>durationIntervalRef := Some k,
             activeIntervals := activeIntervals st @ [k],
             nextHandle := Suc k\<rparr>)"

definition clearInterval :: "nat \<Rightarrow> app_state \<Rightarrow> app_state" where
  "clearInterval k st = st\<lparr>activeIntervals := removeAll k (activeIntervals st)\<rparr>"

definition cancelAnimationFrame :: "nat \<Rightarrow> app_state \<Rightarrow> app_state" where
  "cancelAnimationFrame k st = st\<lparr>pendingFrames := removeAll k (pendingFrames st)\<rparr>"

text \<open>One second passes: every running interval calls \<^verbatim>\<open>setRecordingDuration(prev => prev + 1)\<close>.\<close>

definition second_elapses :: "app_state \<Rightarrow> app_state" where
  "second_elapses st = st\<lparr>recordingDuration := recordingDuration st + int (length (activeIntervals st))\<rparr>"

subsection \<open>The audio level monitor\<close>

text \<open>
  \<^verbatim>\<open>new Uint8Array(frequencyBinCount)\<close> filled by \<^verbatim>\<open>getByteFrequencyData\<close>: the
  array has the analyser's bin count; bins the analyser does not deliver stay \<open>0\<close>.
\<close>

definition getByteFrequencyData :: "analyser \<Rightarrow> env \<Rightarrow> 8 word list" where
  "getByteFrequencyData a e =
     (let n = frequencyBinCount a in take n (frequencyData e @ replicate n 0))"

text \<open>
  \<^verbatim>\<open>const average = dataArray.reduce((sum, value) => sum + value, 0) / dataArray.length;
  Math.min(100, (average / 128) * 100)\<close>
\<close>

definition level_of :: "8 word list \<Rightarrow> jsnum" where
  "level_of dataArray =
     (let average = js_div (Num (real (foldl (\<lambda>sum value. sum + unat value) 0 dataArray)))
                           (real (length dataArray))
      in math_min 100 (js_mul (js_div average 128) 100))"

definition monitorAudioLevel :: "app_state \<Rightarrow> env \<Rightarrow> app_state" where
  "monitorAudioLevel st e =
     (case analyserRef st of
        None \<Rightarrow> st
      | Some a \<Rightarrow>
          (let dataArray = getByteFrequencyData a e;
               k = nextHandle st
           in st\<lparr>audioLevel := level_of dataArray,
                  animationFrameRef := Some k,
                  pendingFrames := pendingFrames st @ [k],
                  nextHandle := Suc k\<rparr>))"

text \<open>The browser runs a requested frame unless it was cancelled.\<close>

definition onAnimationFrame :: "nat \<Rightarrow> app_state \<Rightarrow> env \<Rightarrow> app_state" where
  "onAnimationFrame k st e =
     (if k \<in> set (pendingFrames st) then monitorAudioLevel (cancelAnimationFrame k st) e else st)"

subsection \<open>Saving a finished recording\<close>

text \<open>
  \<^verbatim>\<open>processRecording\<close>. The blob is the concatenation of the chunks. A failing reader
  or a rejected transcription ends in the \<^verbatim>\<open>catch\<close> block; the \<^verbatim>\<open>finally\<close> block
  runs on both paths.
\<close>

definition set_isTranscribing :: "bool \<Rightarrow> app_state \<Rightarrow> app_state" where
  "set_isTranscribing b st =
     st\<lparr>isTranscribing := b, setIsTranscribingCalls := setIsTranscribingCalls st @ [b]\<rparr>"

definition transcription_failed :: "app_state \<Rightarrow> app_state" where
  "transcription_failed st =
     toast_error ''Transcription failed. Please try again.'' (console_error ''Transcription failed:'' st)"

definition processRecording :: "app_state \<Rightarrow> env \<Rightarrow> app_state" where
  "processRecording st e =
     (if length (audioChunksRef st) = 0 then st
      else
        (let st1 = set_isTranscribing True st;
             audioBlob = concat (audioChunksRef st1);
             st2 =
               (case readAsDataURL e audioBlob of
                  None \<Rightarrow> transcription_failed st1
                | Some base64Audio \<Rightarrow>
                    (let st1' = st1\<lparr>transcribeCalls := transcribeCalls st1 @ [(base64Audio, selectedLanguage st1)]\<rparr>
                     in case transcribeAudio e base64Audio (selectedLanguage st1) of
                          None \<Rightarrow> transcription_failed st1'
                        | Some text \<Rightarrow>
                            toast_success ''Transcription completed!''
                              (saveSession (st1'\<lparr>transcriptionText := text\<rparr>) e text (recordingDuration st1'))))
         in set_isTranscribing False st2))"

subsection \<open>The recording controller\<close>

text \<open>\<^verbatim>\<open>mediaRecorder.ondataavailable\<close>: a chunk is kept when it is not empty.\<close>

definition ondataavailable :: "string \<Rightarrow> app_state \<Rightarrow> app_state" where
  "ondataavailable data st =
     (if length data > 0 then st\<lparr>audioChunksRef := audioChunksRef st @ [data]\<rparr> else st)"

text \<open>
  \<^verbatim>\<open>startRecording\<close>. A refused microphone, or a recorder that cannot be built for
  \<^verbatim>\<open>audio/webm;codecs=opus\<close>, ends in the \<^verbatim>\<open>catch\<close> block; what was assigned
  before the throw stays assigned.
\<close>

definition startRecording :: "app_state \<Rightarrow> env \<Rightarrow> app_state" where
  "startRecording st e =
     (if \<not> getUserMedia_ok e then
        toast_error ''Failed to access microphone'' (console_error ''Failed to start recording:'' st)
      else
        (let st1 = st\<lparr>streamRef := Some True, audioChunksRef := [],
                       audioContextRef := Some Running, analyserRef := Some \<lparr>fftSize = 256\<rparr>\<rparr>;
             st2 = monitorAudioLevel st1 e
         in if \<not> recorder_ok e then
              toast_error ''Failed to access microphone'' (console_error ''Failed to start recording:'' st2)
            else
              (let st3 = st2\<lparr>mediaRecorderRef := Some Recording, isRecording := True,
                             isPaused := False, recordingDuration := 0\<rparr>;
                   st4 = start_duration_interval st3
               in toast_success ''Recording started!'' st4)))"

text \<open>
  \<^verbatim>\<open>stopRecording\<close>. \<^verbatim>\<open>mediaRecorder.stop()\<close> makes the recorder inactive; its
  \<^verbatim>\<open>stop\<close> event later runs \<^verbatim>\<open>processRecording\<close>.
\<close>

definition stopRecording :: "app_state \<Rightarrow> app_state" where
  "stopRecording st =
     (case mediaRecorderRef st of
        None \<Rightarrow> st
      | Some r \<Rightarrow>
          if \<not> isRecording st then st
          else
            (let st1 = st\<lparr>mediaRecorderRef := Some Inactive, isRecording := False, isPaused := False\<rparr>;
                 st2 = (case streamRef st1 of None \<Rightarrow> st1 | Some live \<Rightarrow> st1\<lparr>streamRef := Some False\<rparr>);
                 st3 = (case audioContextRef st2 of None \<Rightarrow> st2
                        | Some c \<Rightarrow> st2\<lparr>audioContextRef := Some Closed\<rparr>);
                 st4 = (case animationFrameRef st3 of None \<Rightarrow> st3
                        | Some k \<Rightarrow> if truthy (Some k) then cancelAnimationFrame k st3 else st3);
                 st5 = (case durationIntervalRef st4 of None \<Rightarrow> st4
                        | Some k \<Rightarrow> if truthy (Some k) then clearInterval k st4 else st4)
             in st5\<lparr>audioLevel := Num 0\<rparr>))"

text \<open>
  \<^verbatim>\<open>MediaRecorder.pause()\<close> and \<^verbatim>\<open>resume()\<close> throw \<^verbatim>\<open>InvalidStateError\<close> on an
  inactive recorder; nothing in \<^verbatim>\<open>pauseRecording\<close> catches it.
\<close>

fun recorder_pause :: "recorder_state \<Rightarrow> dom_error + recorder_state" where
  "recorder_pause Inactive = Inl InvalidStateError"
| "recorder_pause Recording = Inr Paused"
| "recorder_pause Paused = Inr Paused"

fun recorder_resume :: "recorder_state \<Rightarrow> dom_error + recorder_state" where
  "recorder_resume Inactive = Inl InvalidStateError"
| "recorder_resume Recording = Inr Recording"
| "recorder_resume Paused = Inr Recording"

definition pauseRecording :: "app_state \<Rightarrow> dom_error + app_state" where
  "pauseRecording st =
     (case mediaRecorderRef st of
        None \<Rightarrow> Inr st
      | Some r \<Rightarrow>
          if \<not> isRecording st then Inr st
          else if isPaused st then
            (case recorder_resume r of
               Inl err \<Rightarrow> Inl err
             | Inr r' \<Rightarrow>
                 Inr (start_duration_interval (st\<lparr>mediaRecorderRef := Some r', isPaused := False\<rparr>)))
          else
            (case recorder_pause r of
               Inl err \<Rightarrow> Inl err
             | Inr r' \<Rightarrow>
                 (let st1 = st\<lparr>mediaRecorderRef := Some r', isPaused := True\<rparr>
                  in Inr (case durationIntervalRef st1 of
                            None \<Rightarrow> st1
                          | Some k \<Rightarrow> if truthy (Some k) then clearInterval k st1 else st1))))"

text \<open>Calling a handler on the state the previous call left behind.\<close>

definition and_then :: "dom_error + app_state \<Rightarrow> (app_state \<Rightarrow> dom_error + app_state) \<Rightarrow> dom_error + app_state" where
  "and_then r f = (case r of Inl err \<Rightarrow> Inl err | Inr st \<Rightarrow> f st)"

subsection \<open>Concrete states\<close>

text \<open>The state of a freshly mounted component, and the same with the user \<open>u1\<close> signed in.\<close>

definition initial_state :: app_state where
  "initial_state =
     \<lparr>user = None, isRecording = False, isPaused = False, transcriptionText = [],
      isTranscribing = False, selectedLanguage = ''en'', recordingDuration = 0,
      audioLevel = Num 0, sessions = [], mediaRecorderRef = None, audioChunksRef = [],
      streamRef = None, audioContextRef = None, analyserRef = None, animationFrameRef = None,
      durationIntervalRef = None, localStorage = Map.empty, remote = [], toasts = [],
      console = [], activeIntervals = [], pendingFrames = [], nextHandle = 1,
      transcribeCalls = [], setIsTranscribingCalls = []\<rparr>"

definition signed_in :: app_state where
  "signed_in = initial_state\<lparr>user := Some ''u1''\<rparr>"

text \<open>
  Surroundings in which everything works, and variants: the backend unreachable, and
  the backend unreachable while local storage refuses to write.
\<close>

definition env_ok :: env where
  "env_ok =
     \<lparr>now = 1700000000000, random_suffix = ''k3j9x0q2a'', db_create = Some ''row_1'',
      db_delete_ok = True, db_list_ok = True, setItem_throws = False,
      getUserMedia_ok = True, recorder_ok = True, frequencyData = replicate 128 255,
      readAsDataURL = (\<lambda>blob. Some blob), transcribeAudio = (\<lambda>audio lang. Some ''hello world'')\<rparr>"

definition env_offline :: env where
  "env_offline = env_ok\<lparr>db_create := None, db_delete_ok := False, db_list_ok := False\<rparr>"

definition env_offline_full :: env where
  "env_offline_full = env_offline\<lparr>setItem_throws := True\<rparr>"

text \<open>A component in which the user \<open>u1\<close> has just started to record.\<close>

definition recording_state :: app_state where
  "recording_state = startRecording signed_in env_ok"

subsection \<open>The specification's words, as definitions\<close>

text \<open>The mean amplitude of a sample buffer, and its place on the scale from 0 to 100
  whose reference amplitude is 128.\<close>

definition mean_amplitude :: "8 word list \<Rightarrow> real" where
  "mean_amplitude xs = real (sum_list (map unat xs)) / real (length xs)"

definition spec_level :: "8 word list \<Rightarrow> real" where
  "spec_level xs = min 100 (mean_amplitude xs / 128 * 100)"

text \<open>What encoding and transcribing the buffered chunks yields: the text, or \<open>None\<close>
  when the reader or the transcription service fails.\<close>

definition transcription_outcome :: "app_state \<Rightarrow> env \<Rightarrow> string option" where
  "transcription_outcome st e =
     (case readAsDataURL e (concat (audioChunksRef st)) of
        None \<Rightarrow> None
      | Some base64Audio \<Rightarrow> transcribeAudio e base64Audio (selectedLanguage st))"

text \<open>One second into the recording; the same after a chunk has arrived and the user
  has pressed stop; surroundings in which the transcription service rejects.\<close>

definition recording_1s :: app_state where
  "recording_1s = second_elapses recording_state"

definition stopped_state :: app_state where
  "stopped_state = stopRecording (ondataavailable ''webm-bytes'' recording_1s)"

definition env_no_transcription :: env where
  "env_no_transcription = env_ok\<lparr>transcribeAudio := (\<lambda>audio lang. None)\<rparr>"

text \<open>"No field of the recording state remains set": all four transient fields are back
  at their initial values.\<close>

definition recording_fields_reset :: "app_state \<Rightarrow> bool" where
  "recording_fields_reset st =
     (\<not> isRecording st \<and> \<not> isPaused st \<and> recordingDuration st = 0 \<and> audioLevel st = Num 0)"

text \<open>
  The flags agree with the recorder: while \<^verbatim>\<open>isRecording\<close> is set there is a recorder,
  paused exactly when \<^verbatim>\<open>isPaused\<close> is set.
\<close>

definition controller_inv :: "app_state \<Rightarrow> bool" where
  "controller_inv st =
     (\<not> isRecording st \<or> mediaRecorderRef st = Some (if isPaused st then Paused else Recording))"

text \<open>The key as the specification spells it.\<close>

definition spec_storage_key :: "string \<Rightarrow> string" where
  "spec_storage_key uid = ''sessions_'' @ uid"

text \<open>The ids of the sessions that local storage holds for a user.\<close>

definition stored_ids :: "app_state \<Rightarrow> string \<Rightarrow> string list" where
  "stored_ids st uid =
     (case localStorage st (storage_key uid) of
        None \<Rightarrow> []
      | Some stored \<Rightarrow> (case parse_sessions stored of None \<Rightarrow> [] | Some ss \<Rightarrow> map s_id ss))"


text \<open>A signed-in component that shows ten earlier sessions, and one whose only session
  was saved while the backend was unreachable.\<close>

definition old_session :: "nat \<Rightarrow> transcription_session" where
  "old_session k =
     \<lparr>s_id = ''row_old_'' @ [digit_char k], s_text = ''earlier text'',
      s_timestamp = 1600000000000 + int k, s_language = ''en'', s_duration = 3\<rparr>"



definition locally_saved :: app_state where
  "locally_saved = saveSession signed_in env_offline ''hello'' 5"

text \<open>The generated id of that locally saved session, and a component whose only
  session was saved to the remote table.\<close>

definition local_id :: string where
  "local_id = s_id (newSession signed_in env_offline ''hello'' 5)"

definition remotely_saved :: app_state where
  "remotely_saved = saveSession signed_in env_ok ''hello'' 5"

lemma nat_toString_small: "n < 10 \<Longrightarrow> nat_toString n = [digit_char n]"
  by (subst nat_toString.simps) simp

lemma nat_toString_two: "10 \<le> n \<Longrightarrow> n < 100 \<Longrightarrow> nat_toString n = two_digits n"
proof -
  assume a: "10 \<le> n" and b: "n < 100"
  from b have "n div 10 < 10" by simp
  then have "nat_toString (n div 10) = [digit_char (n div 10)]"
    by (rule nat_toString_small)
  moreover from a have "nat_toString n = nat_toString (n div 10) @ [digit_char (n mod 10)]"
    by (subst nat_toString.simps) simp
  ultimately show ?thesis by (simp add: two_digits_def)
qed

lemma padStart_two_digits: "r < 100 \<Longrightarrow> padStart 2 (CHR ''0'') (nat_toString r) = two_digits r"
proof (cases "r < 10")
  case True
  then have "nat_toString r = [digit_char r]" by (rule nat_toString_small)
  moreover from True have "two_digits r = [CHR ''0'', digit_char r]"
    by (simp add: two_digits_def digit_char_def)
  ultimately show ?thesis by (simp add: padStart_def)
next
  case False
  assume "r < 100"
  with False have "nat_toString r = two_digits r" by (simp add: nat_toString_two)
  moreover have "length (two_digits r) = 2" by (simp add: two_digits_def)
  ultimately show ?thesis by (simp add: padStart_def)
qed

lemma js_rem_nonneg: "0 \<le> a \<Longrightarrow> 0 < b \<Longrightarrow> js_rem a b = a mod b"
  by (cases "a = 0") (simp_all add: js_rem_def)

subsection \<open>Division by 60 in double arithmetic\<close>

lemma bit_length_le: "k < 2 ^ w \<Longrightarrow> bit_length k \<le> w"
proof (induction w arbitrary: k)
  case 0
  then show ?case by (simp add: bit_length.simps)
next
  case (Suc w)
  show ?case
  proof (cases "k \<le> 0")
    case True
    then show ?thesis by (simp add: bit_length.simps)
  next
    case False
    from Suc.prems have "k div 2 < 2 ^ w" by simp
    then have "bit_length (k div 2) \<le> w" by (rule Suc.IH)
    with False show ?thesis by (subst bit_length.simps) simp
  qed
qed

lemma bit_length_60: "bit_length 60 = 6"
  by (simp add: bit_length.simps)

lemma int_div_less:
  assumes "0 < q" and "m < n * q"
  shows "m div q < (n::int)"
proof (rule ccontr)
  assume "\<not> m div q < n"
  then have "n \<le> m div q" by simp
  then have "n * q \<le> (m div q) * q"
    using assms(1) by (intro mult_right_mono) simp_all
  moreover have "m = (m div q) * q + m mod q" by simp
  moreover have "0 \<le> m mod q" using assms(1) by simp
  ultimately show False using assms(2) by linarith
qed

lemma round_half_even_cases:
  assumes "0 < b"
  shows "round_half_even a b = a div b
         \<or> (round_half_even a b = a div b + 1 \<and> b \<le> 2 * (a mod b))"
  by (auto simp add: round_half_even_def Let_def)

text \<open>
  With at least five binary digits after the point (\<open>32 \<le> T\<close>), rounding \<open>a / 60\<close> to
  a multiple of \<open>1 / T\<close> never reaches the next integer: the fraction of \<open>a / 60\<close> is
  at most \<open>59 / 60\<close>.
\<close>

lemma floor_of_rounded:
  assumes a: "0 \<le> a" and P: "0 < P" and T: "32 \<le> T"
  shows "round_half_even (a * (P * T)) (60 * P) div T = a div 60"
proof -
  let ?x = "a * T"
  have reorder: "a * (P * T) = ?x * P" by (simp only: ac_simps)
  have q: "(a * (P * T)) div (60 * P) = ?x div 60"
    unfolding reorder using P by (intro div_mult_mult2) simp
  have r: "(a * (P * T)) mod (60 * P) = (?x mod 60) * P"
    unfolding reorder by (rule mod_mult_mult2)
  define n where "n = a div 60"
  define r where "r = a mod 60"
  have a_eq: "a = 60 * n + r" and r_bounds: "0 \<le> r" "r \<le> 59"
    by (simp_all add: n_def r_def)
  define w where "w = (r * T) div 60"
  define z where "z = (r * T) mod 60"
  have rT: "r * T = 60 * w + z"
    unfolding w_def z_def by (rule mult_div_mod_eq [symmetric])
  have z_bounds: "0 \<le> z" "z < 60"
    by (simp_all add: z_def)
  define k where "k = n * T + w"
  have x_eq: "?x = 60 * k + z"
    using rT by (simp add: a_eq k_def algebra_simps)
  have "(60 * k + z) div 60 = k" and "(60 * k + z) mod 60 = z"
    using z_bounds by simp_all
  then have xd: "?x div 60 = n * T + w" and xm: "?x mod 60 = z"
    by (simp_all only: x_eq) (simp_all only: k_def)
  have rT_le: "r * T \<le> 59 * T"
    using r_bounds T by (intro mult_right_mono) simp_all
  have rT_ge: "0 \<le> r * T"
    using r_bounds T by simp
  have w0: "0 \<le> w" using rT_ge by (simp add: w_def pos_imp_zdiv_nonneg_iff)
  have wT: "w < T" using rT rT_le z_bounds T by linarith
  have base: "(n * T + w) div T = n"
    using w0 wT T by simp
  from round_half_even_cases [of "60 * P" "a * (P * T)"] P
  consider "round_half_even (a * (P * T)) (60 * P) = n * T + w"
    | "round_half_even (a * (P * T)) (60 * P) = n * T + w + 1" "60 * P \<le> 2 * (z * P)"
    by (auto simp add: q r xd xm)
  then show ?thesis
  proof cases
    case 1
    then show ?thesis using base by (simp add: n_def)
  next
    case 2
    from 2(2) P have "30 \<le> z" by simp
    with rT rT_le T have "w + 1 < T" by linarith
    then have "(n * T + (w + 1)) div T = n"
      using w0 T by simp
    with 2(1) show ?thesis by (simp add: n_def add.assoc)
  qed
qed

text \<open>For a safe integer, \<^verbatim>\<open>Math.floor(seconds / 60)\<close> is the integer quotient.\<close>

lemma math_floor_js_divide_60:
  assumes "0 \<le> a" and "a < 2 ^ 53"
  shows "math_floor (js_divide a 60) = a div 60"
proof -
  define s where "s = bit_length (a * 2 ^ 59 div 60) - 53"
  have "a * 2 ^ 59 < 2 ^ 53 * 2 ^ 59"
    using assms(2) by (intro mult_strict_right_mono) simp_all
  then have "a * 2 ^ 59 < 2 ^ 107 * 60" by simp
  then have "a * 2 ^ 59 div 60 < 2 ^ 107"
    by (intro int_div_less) simp_all
  then have "bit_length (a * 2 ^ 59 div 60) \<le> 107" by (rule bit_length_le)
  then have s: "s \<le> 54" by (simp add: s_def)
  define t where "t = 59 - s"
  have st: "s + t = 59" and t5: "5 \<le> t" using s by (simp_all add: t_def)
  have pow: "(2::int) ^ 59 = 2 ^ s * 2 ^ t"
    by (simp only: st power_add [symmetric])
  have "(2::int) ^ 5 \<le> 2 ^ t" using t5 by (intro power_increasing) simp_all
  then have T: "(32::int) \<le> 2 ^ t" by simp
  have K: "53 + bit_length 60 = 59" by (simp add: bit_length_60)
  have "double_div a 60 = (round_half_even (a * 2 ^ 59) (60 * 2 ^ s), int s - int 59)"
    by (simp only: double_div_def Let_def K s_def)
  then have d: "double_div a 60 = (round_half_even (a * (2 ^ s * 2 ^ t)) (60 * 2 ^ s), int s - 59)"
    by (simp only: pow) simp
  have fl: "math_floor (m, int s - 59) = m div 2 ^ t" for m
  proof -
    have "\<not> (0::int) \<le> int s - 59" using s by simp
    moreover have "nat (- (int s - 59)) = t" using s by (simp add: t_def)
    ultimately show ?thesis by (simp only: math_floor_def prod.case if_False)
  qed
  have abs: "\<bar>a\<bar> = a" using assms(1) by simp
  note fr = floor_of_rounded [OF assms(1), of "2 ^ s" "2 ^ t"]
  show ?thesis
  proof (cases "a = 0")
    case True
    then show ?thesis
      by (simp add: js_divide_def double_div_def math_floor_def round_half_even_def Let_def)
  next
    case False
    with assms(1) have "sgn a = 1" by simp
    then have "js_divide a 60 = (round_half_even (a * (2 ^ s * 2 ^ t)) (60 * 2 ^ s), int s - 59)"
      by (simp only: js_divide_def abs d prod.case mult_1)
    then show ?thesis using fr T by (simp only: fl) simp
  qed
qed

lemma is_number_safe: "\<bar>n\<bar> < 2 ^ 53 \<Longrightarrow> is_number n"
proof -
  assume a: "\<bar>n\<bar> < 2 ^ 53"
  then have "bit_length \<bar>n\<bar> \<le> 53" by (rule bit_length_le)
  then have "bit_length \<bar>n\<bar> - 53 = 0" by simp
  moreover have "(2::int) ^ 53 < 2 ^ 1024" by simp
  with a have "\<bar>n\<bar> < 2 ^ 1024" by (rule less_trans)
  ultimately show ?thesis by (simp add: is_number_def)
qed

subsection \<open>The duration format\<close>

text \<open>
  C8 as stated: for every integral number of seconds \<open>D \<ge> 0\<close> the minutes printed are
  \<open>\<lfloor>D / 60\<rfloor>\<close>. The integer 67553994410557616 is a number; its quotient by 60
  rounds to a double whose floor is one more than the integer quotient.
\<close>

theorem formatDuration_large_counterexample:
  "is_number 67553994410557616 \<and> (0::int) \<le> 67553994410557616
   \<and> formatDuration 67553994410557616 = Some ''1125899906842627:56''
   \<and> spec_formatDuration (nat 67553994410557616) = ''1125899906842626:56''"
proof -
  have n: "is_number 67553994410557616" by code_simp
  have f: "math_floor (js_divide 67553994410557616 60) = 1125899906842627" by code_simp
  have r: "js_rem 67553994410557616 60 = 56" by (simp add: js_rem_def)
  have m: "number_toString 1125899906842627 = Some ''1125899906842627''"
    by (simp add: number_toString_def decimal_def nat_toString.simps digit_char_def)
  have s: "number_toString 56 = Some ''56''"
    by (simp add: number_toString_def decimal_def nat_toString.simps digit_char_def)
  have "formatDuration 67553994410557616 = Some ''1125899906842627:56''"
    unfolding formatDuration_def Let_def f r
    by (simp only: m s option.case) (simp add: padStart_def)
  moreover have "spec_formatDuration (nat 67553994410557616) = ''1125899906842626:56''"
    by (simp add: spec_formatDuration_def two_digits_def nat_toString.simps digit_char_def)
  ultimately show ?thesis using n by simp
qed

text \<open>
  C8 as amended. For every integral number of seconds \<open>D\<close> from 0 up to the largest
  safe integer \<open>2 ^ 53 - 1\<close>, \<^verbatim>\<open>formatDuration(D)\<close> is the string \<open>M:SS\<close> with
  \<open>M = \<lfloor>D / 60\<rfloor>\<close> and \<open>SS\<close> the value \<open>D mod 60\<close> padded with zeros to exactly two
  digits.
\<close>

theorem formatDuration_M_SS:
  "0 \<le> D \<Longrightarrow> D \<le> 9007199254740991 \<Longrightarrow>
     is_number D
     \<and> formatDuration D = Some (spec_formatDuration (nat D))
     \<and> formatDuration D =
         Some (nat_toString (nat D div 60)
               @ [CHR '':'', digit_char (nat D mod 60 div 10), digit_char (nat D mod 60 mod 10)])"
proof -
  assume D: "0 \<le> D" and safe: "D \<le> 9007199254740991"
  from safe have lt: "D < 2 ^ 53" by simp
  with D have num: "is_number D" by (intro is_number_safe) simp
  have fl: "math_floor (js_divide D 60) = D div 60"
    using D lt by (rule math_floor_js_divide_60)
  have m: "D div 60 = int (nat D div 60)" using D by (simp add: zdiv_int)
  have r: "js_rem D 60 = int (nat D mod 60)" using D by (simp add: js_rem_nonneg zmod_int)
  have "D div 60 \<le> D"
  proof (cases "D = 0")
    case True
    then show ?thesis by simp
  next
    case False
    with D have "0 < D" by simp
    then show ?thesis by (rule int_div_le_self)
  qed
  with safe D have ms: "number_toString (D div 60) = Some (nat_toString (nat D div 60))"
    by (simp add: number_toString_def decimal_def m pos_imp_zdiv_nonneg_iff)
  have "nat D mod 60 < 60" by simp
  then have rs: "number_toString (int (nat D mod 60)) = Some (nat_toString (nat D mod 60))"
    by (simp add: number_toString_def decimal_def)
  have "nat D mod 60 < 100" by (rule less_trans [of _ 60]) simp_all
  then have p: "padStart 2 (CHR ''0'') (nat_toString (nat D mod 60)) = two_digits (nat D mod 60)"
    by (rule padStart_two_digits)
  have "formatDuration D = Some (spec_formatDuration (nat D))"
    unfolding formatDuration_def Let_def fl r
    by (simp only: ms rs option.case p spec_formatDuration_def)
  with num show ?thesis by (simp add: spec_formatDuration_def two_digits_def)
qed

theorem formatDuration_65_witness:
  "(0::int) \<le> 65 \<and> (65::int) \<le> 9007199254740991 \<and> formatDuration 65 = Some ''1:05''"
proof -
  have "nat_toString (nat 65 div 60) = ''1''" by (simp add: nat_toString_small digit_char_def)
  moreover have "digit_char (nat 65 mod 60 div 10) = CHR ''0''" by (simp add: digit_char_def)
  moreover have "digit_char (nat 65 mod 60 mod 10) = CHR ''5''" by (simp add: digit_char_def)
  ultimately show ?thesis
    using formatDuration_M_SS [of 65, THEN conjunct2, THEN conjunct2] by simp
qed

subsection \<open>The audio level\<close>

lemma foldl_unat_sum: "foldl (\<lambda>sum value. sum + unat value) acc xs = acc + sum_list (map unat xs)"
  by (induction xs arbitrary: acc) simp_all

lemma level_of_nonempty: "xs \<noteq> [] \<Longrightarrow> level_of xs = Num (spec_level xs)"
  by (simp add: level_of_def spec_level_def mean_amplitude_def foldl_unat_sum)

lemma level_of_empty: "level_of [] = NaN"
  by (simp add: level_of_def)

lemma spec_level_range: "0 \<le> spec_level xs \<and> spec_level xs \<le> 100"
  by (simp add: spec_level_def mean_amplitude_def)

lemma length_getByteFrequencyData: "length (getByteFrequencyData a e) = frequencyBinCount a"
  by (simp add: getByteFrequencyData_def Let_def)

lemma recording_state_eq:
  "recording_state =
     \<lparr>user = Some ''u1'', isRecording = True, isPaused = False, transcriptionText = [],
      isTranscribing = False, selectedLanguage = ''en'', recordingDuration = 0,
      audioLevel = Num 100, sessions = [], mediaRecorderRef = Some Recording,
      audioChunksRef = [], streamRef = Some True, audioContextRef = Some Running,
      analyserRef = Some \<lparr>fftSize = 256\<rparr>, animationFrameRef = Some 1,
      durationIntervalRef = Some 2, localStorage = Map.empty, remote = [],
      toasts = [Toast_success ''Recording started!''], console = [],
      activeIntervals = [2], pendingFrames = [1], nextHandle = 3,
      transcribeCalls = [], setIsTranscribingCalls = []\<rparr>"
proof -
  have "getByteFrequencyData \<lparr>fftSize = 256\<rparr> env_ok = replicate 128 255"
    by (simp add: getByteFrequencyData_def frequencyBinCount_def env_ok_def)
  moreover have "level_of (replicate 128 255) = Num 100"
    by (simp add: level_of_def foldl_unat_sum sum_list_replicate)
  ultimately show ?thesis
    by (simp add: recording_state_def startRecording_def signed_in_def initial_state_def
        monitorAudioLevel_def Let_def start_duration_interval_def toast_success_def)
      (simp add: env_ok_def)
qed

text \<open>
  C9. Whatever bytes the analyser delivers, the level that one tick of
  \<^verbatim>\<open>monitorAudioLevel\<close> stores is a number between 0 and 100: the mean of the
  buffer, divided by the reference amplitude 128, scaled to 100 and cut off at 100. The
  buffer a tick reads has \<^verbatim>\<open>frequencyBinCount\<close> entries; \<^verbatim>\<open>startRecording\<close> sets
  the FFT size to 256, so there are 128 of them.
\<close>

theorem monitorAudioLevel_level_in_range:
  assumes "analyserRef st = Some a" and "0 < frequencyBinCount a"
  shows "\<exists>r. audioLevel (monitorAudioLevel st e) = Num r \<and> 0 \<le> r \<and> r \<le> 100
            \<and> r = spec_level (getByteFrequencyData a e)"
proof -
  from assms(2) have "getByteFrequencyData a e \<noteq> []"
    using length_getByteFrequencyData [of a e] by auto
  then have "level_of (getByteFrequencyData a e) = Num (spec_level (getByteFrequencyData a e))"
    by (rule level_of_nonempty)
  with assms(1) have "audioLevel (monitorAudioLevel st e) = Num (spec_level (getByteFrequencyData a e))"
    by (simp add: monitorAudioLevel_def Let_def)
  with spec_level_range show ?thesis by blast
qed

theorem monitorAudioLevel_level_in_range_witness:
  "analyserRef recording_state = Some \<lparr>fftSize = 256\<rparr> \<and> 0 < frequencyBinCount \<lparr>fftSize = 256\<rparr>
   \<and> (\<exists>r. audioLevel (monitorAudioLevel recording_state env_ok) = Num r \<and> 0 \<le> r \<and> r \<le> 100)"
proof -
  have h1: "analyserRef recording_state = Some \<lparr>fftSize = 256\<rparr>"
    by (simp add: recording_state_eq)
  have h2: "0 < frequencyBinCount \<lparr>fftSize = 256\<rparr>"
    by (simp add: frequencyBinCount_def)
  from monitorAudioLevel_level_in_range [OF h1 h2, of env_ok] h1 h2 show ?thesis by blast
qed

subsection \<open>Concrete states, evaluated\<close>

lemma recording_1s_eq:
  "recording_1s = recording_state\<lparr>recordingDuration := 1\<rparr>"
  by (simp add: recording_1s_def second_elapses_def recording_state_eq)

lemma stopped_state_eq:
  "stopped_state =
     \<lparr>user = Some ''u1'', isRecording = False, isPaused = False, transcriptionText = [],
      isTranscribing = False, selectedLanguage = ''en'', recordingDuration = 1,
      audioLevel = Num 0, sessions = [], mediaRecorderRef = Some Inactive,
      audioChunksRef = [''webm-bytes''], streamRef = Some False, audioContextRef = Some Closed,
      analyserRef = Some \<lparr>fftSize = 256\<rparr>, animationFrameRef = Some 1,
      durationIntervalRef = Some 2, localStorage = Map.empty, remote = [],
      toasts = [Toast_success ''Recording started!''], console = [],
      activeIntervals = [], pendingFrames = [], nextHandle = 3,
      transcribeCalls = [], setIsTranscribingCalls = []\<rparr>"
  by (simp add: stopped_state_def recording_1s_eq recording_state_eq ondataavailable_def
      stopRecording_def Let_def cancelAnimationFrame_def clearInterval_def)

subsection \<open>Finishing a recording\<close>

text \<open>
  C10. With no buffered chunk, \<^verbatim>\<open>processRecording\<close> returns at once and leaves
  everything as it was: no request reaches the transcription service, no store changes,
  no toast is shown, and \<^verbatim>\<open>setIsTranscribing\<close> is not called.
\<close>

theorem processRecording_no_chunks:
  "audioChunksRef st = [] \<Longrightarrow>
     processRecording st e = st
     \<and> transcribeCalls (processRecording st e) = transcribeCalls st
     \<and> setIsTranscribingCalls (processRecording st e) = setIsTranscribingCalls st
     \<and> toasts (processRecording st e) = toasts st
     \<and> sessions (processRecording st e) = sessions st
     \<and> remote (processRecording st e) = remote st
     \<and> localStorage (processRecording st e) = localStorage st"
  by (simp add: processRecording_def)

theorem processRecording_no_chunks_witness:
  "audioChunksRef recording_state = []
   \<and> processRecording recording_state env_ok = recording_state
   \<and> setIsTranscribingCalls (processRecording recording_state env_ok) = []
   \<and> transcribeCalls (processRecording recording_state env_ok) = []"
proof -
  have h: "audioChunksRef recording_state = []" by (simp add: recording_state_eq)
  have "setIsTranscribingCalls recording_state = []" and "transcribeCalls recording_state = []"
    by (simp_all add: recording_state_eq)
  with h processRecording_no_chunks [OF h, of env_ok] show ?thesis by simp
qed

text \<open>What \<^verbatim>\<open>saveSession\<close> does to the stores and the list does not depend on the
  fields \<^verbatim>\<open>processRecording\<close> has touched before it calls it.\<close>

lemma saveSession_frame:
  "sessions (saveSession (st\<lparr>isTranscribing := b, setIsTranscribingCalls := c, transcribeCalls := tc, transcriptionText := tt\<rparr>) e t d)
     = sessions (saveSession st e t d)
   \<and> remote (saveSession (st\<lparr>isTranscribing := b, setIsTranscribingCalls := c, transcribeCalls := tc, transcriptionText := tt\<rparr>) e t d)
     = remote (saveSession st e t d)
   \<and> localStorage (saveSession (st\<lparr>isTranscribing := b, setIsTranscribingCalls := c, transcribeCalls := tc, transcriptionText := tt\<rparr>) e t d)
     = localStorage (saveSession st e t d)
   \<and> toasts (saveSession (st\<lparr>isTranscribing := b, setIsTranscribingCalls := c, transcribeCalls := tc, transcriptionText := tt\<rparr>) e t d)
     = toasts (saveSession st e t d)
   \<and> transcriptionText (saveSession (st\<lparr>isTranscribing := b, setIsTranscribingCalls := c, transcribeCalls := tc, transcriptionText := tt\<rparr>) e t d)
     = tt
   \<and> isTranscribing (saveSession (st\<lparr>isTranscribing := b, setIsTranscribingCalls := c, transcribeCalls := tc, transcriptionText := tt\<rparr>) e t d)
     = b"
  by (simp add: saveSession_def remote_create_def newSession_def saveSessionsToLocalStorage_def
      toast_success_def console_error_def Let_def split: option.splits)

text \<open>The list \<^verbatim>\<open>saveSession\<close> leaves: the new record, then the first nine of the old.\<close>

lemma sessions_saveSession:
  "\<exists>s. sessions (saveSession st e t d) = s # take 9 (sessions st)
       \<and> s_text s = t \<and> s_duration s = d \<and> s_language s = selectedLanguage st
       \<and> s_timestamp s = now e"
  by (simp add: saveSession_def remote_create_def newSession_def saveSessionsToLocalStorage_def
      toast_success_def console_error_def Let_def split: option.splits)

text \<open>
  C5. For a recording with at least one chunk: when encoding and transcription succeed,
  the text is stored, \<^verbatim>\<open>saveSession\<close> runs with it (list, stores and toasts are
  those \<^verbatim>\<open>saveSession\<close> produces, with a record of that text in front), and the
  transcribing flag is off again; when either fails, the error toast is shown, the list
  and both stores are untouched, the displayed text is unchanged and the transcribing
  flag is off again.
\<close>

theorem processRecording_outcomes:
  assumes "audioChunksRef st \<noteq> []"
  shows "case transcription_outcome st e of
           Some t \<Rightarrow>
             transcriptionText (processRecording st e) = t
             \<and> sessions (processRecording st e) = sessions (saveSession st e t (recordingDuration st))
             \<and> remote (processRecording st e) = remote (saveSession st e t (recordingDuration st))
             \<and> localStorage (processRecording st e) = localStorage (saveSession st e t (recordingDuration st))
             \<and> toasts (processRecording st e)
                 = toasts (saveSession st e t (recordingDuration st)) @ [Toast_success ''Transcription completed!'']
             \<and> (\<exists>s. sessions (processRecording st e) = s # take 9 (sessions st)
                    \<and> s_text s = t \<and> s_duration s = recordingDuration st
                    \<and> s_language s = selectedLanguage st)
             \<and> \<not> isTranscribing (processRecording st e)
         | None \<Rightarrow>
             toasts (processRecording st e) = toasts st @ [Toast_error ''Transcription failed. Please try again.'']
             \<and> sessions (processRecording st e) = sessions st
             \<and> remote (processRecording st e) = remote st
             \<and> localStorage (processRecording st e) = localStorage st
             \<and> transcriptionText (processRecording st e) = transcriptionText st
             \<and> \<not> isTranscribing (processRecording st e)"
proof (cases "transcription_outcome st e")
  case None
  then show ?thesis using assms
    by (auto simp add: processRecording_def transcription_outcome_def Let_def set_isTranscribing_def
        transcription_failed_def toast_error_def console_error_def split: option.splits)
next
  case (Some t)
  then obtain a where a: "readAsDataURL e (concat (audioChunksRef st)) = Some a"
    and t: "transcribeAudio e a (selectedLanguage st) = Some t"
    by (auto simp add: transcription_outcome_def split: option.splits)
  have "sessions (processRecording st e) = sessions (saveSession st e t (recordingDuration st))"
    using assms a t saveSession_frame
    by (simp add: processRecording_def Let_def set_isTranscribing_def toast_success_def)
  moreover from this
  have "\<exists>s. sessions (processRecording st e) = s # take 9 (sessions st)
           \<and> s_text s = t \<and> s_duration s = recordingDuration st \<and> s_language s = selectedLanguage st"
    using sessions_saveSession [of st e t "recordingDuration st"] by auto
  moreover
  have "transcriptionText (processRecording st e) = t
        \<and> remote (processRecording st e) = remote (saveSession st e t (recordingDuration st))
        \<and> localStorage (processRecording st e) = localStorage (saveSession st e t (recordingDuration st))
        \<and> toasts (processRecording st e)
            = toasts (saveSession st e t (recordingDuration st)) @ [Toast_success ''Transcription completed!'']
        \<and> \<not> isTranscribing (processRecording st e)"
    using assms a t saveSession_frame
    by (simp add: processRecording_def Let_def set_isTranscribing_def toast_success_def)
  ultimately show ?thesis using Some by simp
qed

theorem processRecording_outcomes_witness:
  "audioChunksRef stopped_state \<noteq> []
   \<and> transcriptionText (processRecording stopped_state env_ok) = ''hello world''
   \<and> \<not> isTranscribing (processRecording stopped_state env_ok)
   \<and> toasts (processRecording stopped_state env_no_transcription)
       = [Toast_success ''Recording started!'', Toast_error ''Transcription failed. Please try again.'']
   \<and> sessions (processRecording stopped_state env_no_transcription) = []
   \<and> \<not> isTranscribing (processRecording stopped_state env_no_transcription)"
proof -
  have h: "audioChunksRef stopped_state \<noteq> []" by (simp add: stopped_state_eq)
  have ok: "transcription_outcome stopped_state env_ok = Some ''hello world''"
    by (simp add: transcription_outcome_def env_ok_def)
  have no: "transcription_outcome stopped_state env_no_transcription = None"
    by (simp add: transcription_outcome_def env_no_transcription_def env_ok_def)
  have s: "toasts stopped_state = [Toast_success ''Recording started!'']" "sessions stopped_state = []"
    by (simp_all add: stopped_state_eq)
  from processRecording_outcomes [OF h, of env_ok] ok
  have "transcriptionText (processRecording stopped_state env_ok) = ''hello world''
        \<and> \<not> isTranscribing (processRecording stopped_state env_ok)"
    by simp
  moreover from processRecording_outcomes [OF h, of env_no_transcription] no s
  have "toasts (processRecording stopped_state env_no_transcription)
          = [Toast_success ''Recording started!'', Toast_error ''Transcription failed. Please try again.'']
        \<and> sessions (processRecording stopped_state env_no_transcription) = []
        \<and> \<not> isTranscribing (processRecording stopped_state env_no_transcription)"
    by simp
  ultimately show ?thesis using h by simp
qed

subsection \<open>The controller's flags and its recorder\<close>

lemma controller_inv_initial: "controller_inv initial_state"
  by (simp add: controller_inv_def initial_state_def)

lemma controller_inv_startRecording: "controller_inv st \<Longrightarrow> controller_inv (startRecording st e)"
  by (simp add: controller_inv_def startRecording_def Let_def monitorAudioLevel_def
      start_duration_interval_def toast_success_def toast_error_def console_error_def
      split: option.splits)

lemma controller_inv_stopRecording: "controller_inv st \<Longrightarrow> controller_inv (stopRecording st)"
  by (simp add: controller_inv_def stopRecording_def Let_def clearInterval_def
      cancelAnimationFrame_def split: option.splits)

lemma controller_inv_pauseRecording:
  "controller_inv st \<Longrightarrow> \<exists>st'. pauseRecording st = Inr st' \<and> controller_inv st'"
  by (cases "mediaRecorderRef st")
     (auto simp add: controller_inv_def pauseRecording_def Let_def clearInterval_def
        start_duration_interval_def split: option.splits)

lemma controller_inv_frame:
  "isRecording st' = isRecording st \<Longrightarrow> isPaused st' = isPaused st \<Longrightarrow>
   mediaRecorderRef st' = mediaRecorderRef st \<Longrightarrow> controller_inv st \<Longrightarrow> controller_inv st'"
  by (simp add: controller_inv_def)

lemma saveSession_controller:
  "isRecording (saveSession st e t d) = isRecording st"
  "isPaused (saveSession st e t d) = isPaused st"
  "mediaRecorderRef (saveSession st e t d) = mediaRecorderRef st"
  by (simp_all add: saveSession_def Let_def toast_success_def console_error_def
      saveSessionsToLocalStorage_def split: option.splits prod.splits)

lemma controller_inv_saveSession: "controller_inv st \<Longrightarrow> controller_inv (saveSession st e t d)"
  by (rule controller_inv_frame [OF saveSession_controller])

lemma controller_inv_deleteSession: "controller_inv st \<Longrightarrow> controller_inv (deleteSession st e i)"
  by (simp add: controller_inv_def deleteSession_def Let_def toast_success_def console_error_def
      saveSessionsToLocalStorage_def split: option.splits)

lemma controller_inv_processRecording: "controller_inv st \<Longrightarrow> controller_inv (processRecording st e)"
  by (simp add: controller_inv_def processRecording_def Let_def set_isTranscribing_def
      transcription_failed_def toast_error_def toast_success_def console_error_def
      saveSession_controller split: option.splits)

lemma controller_inv_monitorAudioLevel: "controller_inv st \<Longrightarrow> controller_inv (monitorAudioLevel st e)"
  by (simp add: controller_inv_def monitorAudioLevel_def Let_def split: option.splits)

lemma controller_inv_recording:
  "controller_inv st \<Longrightarrow> isRecording st \<Longrightarrow> \<not> isPaused st \<Longrightarrow> mediaRecorderRef st = Some Recording"
  by (simp add: controller_inv_def)

subsection \<open>Pause and resume\<close>

lemma pauseRecording_while_recording:
  assumes "isRecording st" and "\<not> isPaused st" and "mediaRecorderRef st = Some Recording"
  shows "pauseRecording st =
           Inr (st\<lparr>mediaRecorderRef := Some Paused, isPaused := True,
                   activeIntervals := (case durationIntervalRef st of None \<Rightarrow> activeIntervals st
                      | Some k \<Rightarrow> if k \<noteq> 0 then removeAll k (activeIntervals st) else activeIntervals st)\<rparr>)"
  using assms
  by (simp add: pauseRecording_def Let_def clearInterval_def split: option.splits)

lemma pauseRecording_while_paused:
  assumes "isRecording st" and "isPaused st" and "mediaRecorderRef st = Some Paused"
  shows "pauseRecording st =
           Inr (st\<lparr>mediaRecorderRef := Some Recording, isPaused := False,
                   durationIntervalRef := Some (nextHandle st),
                   activeIntervals := activeIntervals st @ [nextHandle st],
                   nextHandle := Suc (nextHandle st)\<rparr>)"
  using assms
  by (simp add: pauseRecording_def Let_def start_duration_interval_def)

text \<open>
  C6. In a state that is recording and not paused (the recorder itself recording), two
  calls of \<^verbatim>\<open>pauseRecording\<close> succeed and lead back to it: recording, not paused,
  recorder recording, with a fresh duration interval running and the counted seconds
  kept; only the interval bookkeeping differs from the state before. Where exactly the
  controller's interval was running before, none runs between the calls and exactly the
  new one runs after them. Analyser, requested frame, audio context and level are the
  same after each call.
\<close>

theorem pauseRecording_twice:
  assumes "isRecording st" and "\<not> isPaused st" and "mediaRecorderRef st = Some Recording"
  shows "\<exists>st1 st2.
           pauseRecording st = Inr st1 \<and> pauseRecording st1 = Inr st2
           \<and> (isRecording st1 \<and> isPaused st1 \<and> mediaRecorderRef st1 = Some Paused)
           \<and> (isRecording st2 \<and> \<not> isPaused st2 \<and> mediaRecorderRef st2 = Some Recording)
           \<and> (durationIntervalRef st2 = Some (nextHandle st)
                \<and> nextHandle st \<in> set (activeIntervals st2)
                \<and> recordingDuration st2 = recordingDuration st)
           \<and> st2 = st\<lparr>durationIntervalRef := durationIntervalRef st2,
                       activeIntervals := activeIntervals st2, nextHandle := nextHandle st2\<rparr>
           \<and> (\<forall>k. durationIntervalRef st = Some k \<and> k \<noteq> 0 \<and> activeIntervals st = [k] \<longrightarrow>
                  activeIntervals st1 = [] \<and> activeIntervals st2 = [nextHandle st])
           \<and> (analyserRef st1 = analyserRef st \<and> analyserRef st2 = analyserRef st
                \<and> animationFrameRef st1 = animationFrameRef st \<and> animationFrameRef st2 = animationFrameRef st
                \<and> pendingFrames st1 = pendingFrames st \<and> pendingFrames st2 = pendingFrames st
                \<and> audioContextRef st1 = audioContextRef st \<and> audioContextRef st2 = audioContextRef st
                \<and> audioLevel st1 = audioLevel st \<and> audioLevel st2 = audioLevel st)"
proof -
  define ivs where "ivs = (case durationIntervalRef st of None \<Rightarrow> activeIntervals st
      | Some k \<Rightarrow> if k \<noteq> 0 then removeAll k (activeIntervals st) else activeIntervals st)"
  define st1 where "st1 = st\<lparr>mediaRecorderRef := Some Paused, isPaused := True, activeIntervals := ivs\<rparr>"
  define st2 where "st2 = st1\<lparr>mediaRecorderRef := Some Recording, isPaused := False,
      durationIntervalRef := Some (nextHandle st1),
      activeIntervals := activeIntervals st1 @ [nextHandle st1],
      nextHandle := Suc (nextHandle st1)\<rparr>"
  have p1: "pauseRecording st = Inr st1"
    unfolding st1_def ivs_def using assms by (rule pauseRecording_while_recording)
  have a: "isRecording st1 \<and> isPaused st1 \<and> mediaRecorderRef st1 = Some Paused"
    using assms(1) by (simp add: st1_def)
  then have "isRecording st1" and "isPaused st1" and "mediaRecorderRef st1 = Some Paused"
    by simp_all
  then have p2: "pauseRecording st1 = Inr st2"
    unfolding st2_def by (rule pauseRecording_while_paused)
  have b: "isRecording st2 \<and> \<not> isPaused st2 \<and> mediaRecorderRef st2 = Some Recording"
    using assms(1) by (simp add: st1_def st2_def)
  have c: "durationIntervalRef st2 = Some (nextHandle st)
           \<and> nextHandle st \<in> set (activeIntervals st2)
           \<and> recordingDuration st2 = recordingDuration st"
    by (simp add: st1_def st2_def)
  have d: "st2 = st\<lparr>durationIntervalRef := durationIntervalRef st2,
                     activeIntervals := activeIntervals st2, nextHandle := nextHandle st2\<rparr>"
    using assms by (simp add: st1_def st2_def)
  have e: "\<forall>k. durationIntervalRef st = Some k \<and> k \<noteq> 0 \<and> activeIntervals st = [k] \<longrightarrow>
                activeIntervals st1 = [] \<and> activeIntervals st2 = [nextHandle st]"
    by (simp add: st1_def st2_def ivs_def)
  have f: "analyserRef st1 = analyserRef st \<and> analyserRef st2 = analyserRef st
           \<and> animationFrameRef st1 = animationFrameRef st \<and> animationFrameRef st2 = animationFrameRef st
           \<and> pendingFrames st1 = pendingFrames st \<and> pendingFrames st2 = pendingFrames st
           \<and> audioContextRef st1 = audioContextRef st \<and> audioContextRef st2 = audioContextRef st
           \<and> audioLevel st1 = audioLevel st \<and> audioLevel st2 = audioLevel st"
    by (simp add: st1_def st2_def)
  from p1 p2 a b c d e f show ?thesis by blast
qed

theorem pauseRecording_twice_witness:
  "isRecording recording_1s \<and> \<not> isPaused recording_1s \<and> mediaRecorderRef recording_1s = Some Recording
   \<and> durationIntervalRef recording_1s = Some 2 \<and> (2::nat) \<noteq> 0 \<and> activeIntervals recording_1s = [2]
   \<and> and_then (pauseRecording recording_1s) pauseRecording
       = Inr (recording_1s\<lparr>durationIntervalRef := Some 3, activeIntervals := [3], nextHandle := 4\<rparr>)
   \<and> recordingDuration (second_elapses (recording_1s\<lparr>durationIntervalRef := Some 3, activeIntervals := [3], nextHandle := 4\<rparr>)) = 2"
proof -
  have h1: "isRecording recording_1s" and h2: "\<not> isPaused recording_1s"
    and h3: "mediaRecorderRef recording_1s = Some Recording"
    by (simp_all add: recording_1s_eq recording_state_eq)
  have k: "durationIntervalRef recording_1s = Some 2 \<and> (2::nat) \<noteq> 0 \<and> activeIntervals recording_1s = [2]"
    by (simp add: recording_1s_eq recording_state_eq)
  have n: "nextHandle recording_1s = 3"
    by (simp add: recording_1s_eq recording_state_eq)
  from pauseRecording_twice [OF h1 h2 h3] obtain st1 st2 where
    p: "pauseRecording recording_1s = Inr st1" "pauseRecording st1 = Inr st2"
    and d: "durationIntervalRef st2 = Some (nextHandle recording_1s)"
    and eq: "st2 = recording_1s\<lparr>durationIntervalRef := durationIntervalRef st2,
                       activeIntervals := activeIntervals st2, nextHandle := nextHandle st2\<rparr>"
    and one: "\<forall>k. durationIntervalRef recording_1s = Some k \<and> k \<noteq> 0 \<and> activeIntervals recording_1s = [k] \<longrightarrow>
                  activeIntervals st1 = [] \<and> activeIntervals st2 = [nextHandle recording_1s]"
    by blast
  from one k have act: "activeIntervals st2 = [3]" using n by simp
  from d n have dur: "durationIntervalRef st2 = Some 3" by simp
  have nh: "nextHandle st2 = 4"
    using p h1 h2 h3 n
    by (auto simp add: pauseRecording_def Let_def clearInterval_def start_duration_interval_def
        split: option.splits if_splits)
  from eq act dur nh
  have "st2 = recording_1s\<lparr>durationIntervalRef := Some 3, activeIntervals := [3], nextHandle := 4\<rparr>"
    by simp
  with p have "and_then (pauseRecording recording_1s) pauseRecording
       = Inr (recording_1s\<lparr>durationIntervalRef := Some 3, activeIntervals := [3], nextHandle := 4\<rparr>)"
    by (simp add: and_then_def)
  moreover have "recordingDuration (second_elapses (recording_1s\<lparr>durationIntervalRef := Some 3, activeIntervals := [3], nextHandle := 4\<rparr>)) = 2"
    by (simp add: second_elapses_def recording_1s_eq recording_state_eq)
  ultimately show ?thesis using h1 h2 h3 k by simp
qed

subsection \<open>Stopping\<close>

lemma stopRecording_fields:
  assumes "mediaRecorderRef st = Some r" and "isRecording st"
  shows "isRecording (stopRecording st) = False" and "isPaused (stopRecording st) = False"
    and "audioLevel (stopRecording st) = Num 0"
    and "recordingDuration (stopRecording st) = recordingDuration st"
    and "mediaRecorderRef (stopRecording st) = Some Inactive"
  using assms
  by (simp_all add: stopRecording_def Let_def clearInterval_def cancelAnimationFrame_def
      split: option.splits)

lemma startRecording_fields:
  assumes "getUserMedia_ok e" and "recorder_ok e"
  shows "recordingDuration (startRecording st e) = 0" and "isRecording (startRecording st e)"
    and "\<not> isPaused (startRecording st e)"
  using assms
  by (simp_all add: startRecording_def Let_def monitorAudioLevel_def start_duration_interval_def
      toast_success_def split: option.splits)

text \<open>
  C7 as stated: after \<^verbatim>\<open>stopRecording\<close> none of \<^verbatim>\<open>isRecording\<close>, \<^verbatim>\<open>isPaused\<close>,
  the duration and the audio level remains set. One second into a recording it fails:
  the duration is still 1 after the stop.
\<close>

theorem stopRecording_keeps_duration_counterexample:
  "isRecording recording_1s \<and> mediaRecorderRef recording_1s = Some Recording
   \<and> recordingDuration (stopRecording recording_1s) = 1
   \<and> \<not> recording_fields_reset (stopRecording recording_1s)"
proof -
  have h: "mediaRecorderRef recording_1s = Some Recording" "isRecording recording_1s"
    by (simp_all add: recording_1s_eq recording_state_eq)
  moreover have "recordingDuration recording_1s = 1"
    by (simp add: recording_1s_eq)
  ultimately show ?thesis
    using stopRecording_fields(4) [OF h] by (simp add: recording_fields_reset_def)
qed

text \<open>
  C7 as amended. In a recording session (a recorder exists and \<^verbatim>\<open>isRecording\<close> is
  set), \<^verbatim>\<open>stopRecording\<close> clears \<^verbatim>\<open>isRecording\<close> and \<^verbatim>\<open>isPaused\<close> and sets the
  audio level to 0; it leaves the duration as it is, and the next successful
  \<^verbatim>\<open>startRecording\<close> sets the duration to 0, sets \<^verbatim>\<open>isRecording\<close> and clears
  \<^verbatim>\<open>isPaused\<close>.
\<close>

theorem stopRecording_resets:
  assumes "mediaRecorderRef st = Some r" and "isRecording st"
  shows "\<not> isRecording (stopRecording st) \<and> \<not> isPaused (stopRecording st)
         \<and> audioLevel (stopRecording st) = Num 0
         \<and> recordingDuration (stopRecording st) = recordingDuration st
         \<and> (getUserMedia_ok e \<and> recorder_ok e \<longrightarrow>
              recordingDuration (startRecording (stopRecording st) e) = 0
              \<and> isRecording (startRecording (stopRecording st) e)
              \<and> \<not> isPaused (startRecording (stopRecording st) e))"
  using stopRecording_fields [OF assms] startRecording_fields [of e "stopRecording st"]
  by simp

theorem stopRecording_resets_witness:
  "mediaRecorderRef recording_1s = Some Recording \<and> isRecording recording_1s
   \<and> getUserMedia_ok env_ok \<and> recorder_ok env_ok
   \<and> \<not> isRecording (stopRecording recording_1s) \<and> \<not> isPaused (stopRecording recording_1s)
   \<and> audioLevel (stopRecording recording_1s) = Num 0
   \<and> recordingDuration (stopRecording recording_1s) = 1
   \<and> recordingDuration (startRecording (stopRecording recording_1s) env_ok) = 0"
proof -
  have h1: "mediaRecorderRef recording_1s = Some Recording" and h2: "isRecording recording_1s"
    by (simp_all add: recording_1s_eq recording_state_eq)
  have e: "getUserMedia_ok env_ok \<and> recorder_ok env_ok" by (simp add: env_ok_def)
  have d: "recordingDuration recording_1s = 1" by (simp add: recording_1s_eq)
  from stopRecording_resets [OF h1 h2, of env_ok] e d h1 h2 show ?thesis by simp
qed

subsection \<open>Local fallback storage\<close>

lemma session_of_json_to_json: "session_of_json (session_to_json s) = Some s"
  by (simp add: session_to_json_def session_of_fields_def)

lemma those_map_session: "those (map (session_of_json \<circ> session_to_json) ss) = Some ss"
  by (induction ss) (simp_all add: session_of_json_to_json)

lemma parse_stringify_sessions: "parse_sessions (stringify_sessions ss) = Some ss"
  by (simp add: stringify_sessions_def those_map_session)

lemma storage_key_neq_spec: "storage_key uid \<noteq> spec_storage_key uid"
  by (simp add: storage_key_def spec_storage_key_def)

lemma localStorage_saveSessionsToLocalStorage:
  "localStorage (saveSessionsToLocalStorage st e ss) =
     (case user st of
        None \<Rightarrow> localStorage st
      | Some uid \<Rightarrow> if setItem_throws e then localStorage st
                    else (localStorage st)(storage_key uid \<mapsto> stringify_sessions ss))"
  by (simp add: saveSessionsToLocalStorage_def console_error_def split: option.splits)

text \<open>
  C4 as stated: reads and writes use the key \<open>sessions_<userId>\<close>. For the user \<open>u1\<close>
  a successful write leaves nothing under \<open>sessions_u1\<close>; the array is under
  \<open>transcription_sessions_u1\<close>.
\<close>

theorem storage_key_counterexample:
  "user signed_in = Some ''u1'' \<and> \<not> setItem_throws env_ok
   \<and> spec_storage_key ''u1'' = ''sessions_u1''
   \<and> localStorage (saveSessionsToLocalStorage signed_in env_ok [old_session 1]) (spec_storage_key ''u1'') = None
   \<and> localStorage (saveSessionsToLocalStorage signed_in env_ok [old_session 1]) ''transcription_sessions_u1''
       = Some (stringify_sessions [old_session 1])"
  by (simp add: localStorage_saveSessionsToLocalStorage signed_in_def initial_state_def env_ok_def
      spec_storage_key_def storage_key_def)

text \<open>
  C4 as amended. For a user with identity \<open>userId\<close> the key is
  \<open>transcription_sessions_<userId>\<close>: a write changes no other key and, unless
  \<^verbatim>\<open>setItem\<close> throws, puts the JSON array of the session records under that key; a
  read depends on nothing but the value under that key; and reading what was written
  gives the written list back.
\<close>

theorem local_storage_key:
  assumes "user st = Some uid"
  shows "storage_key uid = ''transcription_sessions_'' @ uid
         \<and> (\<forall>k. k \<noteq> storage_key uid \<longrightarrow>
                localStorage (saveSessionsToLocalStorage st e ss) k = localStorage st k)
         \<and> (\<not> setItem_throws e \<longrightarrow>
                localStorage (saveSessionsToLocalStorage st e ss) (storage_key uid)
                  = Some (JArray (map session_to_json ss))
                \<and> sessions (loadSessionsFromLocalStorage (saveSessionsToLocalStorage st e ss)) = ss)
         \<and> (\<forall>other. other (storage_key uid) = localStorage st (storage_key uid) \<longrightarrow>
                sessions (loadSessionsFromLocalStorage (st\<lparr>localStorage := other\<rparr>))
                  = sessions (loadSessionsFromLocalStorage st))"
proof -
  have w: "localStorage (saveSessionsToLocalStorage st e ss) =
             (if setItem_throws e then localStorage st
              else (localStorage st)(storage_key uid \<mapsto> stringify_sessions ss))"
    using assms by (simp add: localStorage_saveSessionsToLocalStorage)
  have u: "user (saveSessionsToLocalStorage st e ss) = Some uid"
    using assms by (simp add: saveSessionsToLocalStorage_def console_error_def)
  have a: "\<forall>k. k \<noteq> storage_key uid \<longrightarrow>
             localStorage (saveSessionsToLocalStorage st e ss) k = localStorage st k"
    by (simp add: w)
  have b: "\<not> setItem_throws e \<longrightarrow>
             localStorage (saveSessionsToLocalStorage st e ss) (storage_key uid)
               = Some (JArray (map session_to_json ss))
             \<and> sessions (loadSessionsFromLocalStorage (saveSessionsToLocalStorage st e ss)) = ss"
    using u parse_stringify_sessions [of ss]
    by (simp add: w loadSessionsFromLocalStorage_def stringify_sessions_def)
  have c: "\<forall>other. other (storage_key uid) = localStorage st (storage_key uid) \<longrightarrow>
             sessions (loadSessionsFromLocalStorage (st\<lparr>localStorage := other\<rparr>))
               = sessions (loadSessionsFromLocalStorage st)"
    using assms
    by (simp add: loadSessionsFromLocalStorage_def console_error_def split: option.splits)
  from a b c show ?thesis by (simp add: storage_key_def)
qed

theorem local_storage_key_witness:
  "user signed_in = Some ''u1'' \<and> \<not> setItem_throws env_ok
   \<and> storage_key ''u1'' = ''transcription_sessions_u1''
   \<and> localStorage (saveSessionsToLocalStorage signed_in env_ok [old_session 1]) ''transcription_sessions_u1''
       = Some (JArray [session_to_json (old_session 1)])
   \<and> sessions (loadSessionsFromLocalStorage (saveSessionsToLocalStorage signed_in env_ok [old_session 1]))
       = [old_session 1]"
proof -
  have h: "user signed_in = Some ''u1''" by (simp add: signed_in_def initial_state_def)
  have e: "\<not> setItem_throws env_ok" by (simp add: env_ok_def)
  have k: "storage_key ''u1'' = ''transcription_sessions_u1''" by (simp add: storage_key_def)
  from local_storage_key [OF h, of env_ok "[old_session 1]"] e h k show ?thesis by simp
qed

subsection \<open>Saving a session\<close>

lemma remote_create_signed_in: "user st = Some uid \<Longrightarrow> db_create e = None \<Longrightarrow> remote_create st e t d = None"
  by (simp add: remote_create_def)

lemma saveSession_fallback:
  assumes "remote_create st e t d = None"
  shows "sessions (saveSession st e t d) = newSession st e t d # take 9 (sessions st)"
    and "toasts (saveSession st e t d) = toasts st @ [Toast_success ''Session saved locally!'']"
    and "remote (saveSession st e t d) = remote st"
    and "localStorage (saveSession st e t d) =
           (case user st of
              None \<Rightarrow> localStorage st
            | Some uid \<Rightarrow> if setItem_throws e then localStorage st
                          else (localStorage st)(storage_key uid \<mapsto>
                                 stringify_sessions (newSession st e t d # take 9 (sessions st))))"
  using assms
  by (simp_all add: saveSession_def Let_def toast_success_def console_error_def
      saveSessionsToLocalStorage_def split: option.splits)

lemma console_saveSession_fallback:
  assumes "remote_create st e t d = None"
  shows "console (saveSession st e t d) =
           console st @ [''Failed to save session to database:'']
             @ (case user st of
                  None \<Rightarrow> [''Failed to save sessions to local storage:'']
                | Some uid \<Rightarrow> if setItem_throws e then [''Failed to save sessions to local storage:'']
                              else [])"
  using assms
  by (simp add: saveSession_def Let_def toast_success_def console_error_def
      saveSessionsToLocalStorage_def split: option.splits)


lemma locally_saved_eq:
  "locally_saved =
     signed_in\<lparr>sessions := [newSession signed_in env_offline ''hello'' 5],
               localStorage := [storage_key ''u1'' \<mapsto> stringify_sessions [newSession signed_in env_offline ''hello'' 5]],
               toasts := [Toast_success ''Session saved locally!''],
               console := [''Failed to save session to database:'']\<rparr>"
  by (simp add: locally_saved_def saveSession_def remote_create_def Let_def toast_success_def
      console_error_def saveSessionsToLocalStorage_def signed_in_def initial_state_def
      env_offline_def env_ok_def)

text \<open>
  C1 as stated: whenever the remote create fails, the record is written to the user's
  local storage. With the backend unreachable and \<^verbatim>\<open>setItem\<close> throwing, the user
  \<open>u1\<close> sees "Session saved locally!" while local storage holds nothing under the key.
\<close>

theorem saveSession_local_write_counterexample:
  "user signed_in = Some ''u1'' \<and> db_create env_offline_full = None
   \<and> toasts (saveSession signed_in env_offline_full ''hello'' 5) = [Toast_success ''Session saved locally!'']
   \<and> localStorage (saveSession signed_in env_offline_full ''hello'' 5) (storage_key ''u1'') = None"
proof -
  have u: "user signed_in = Some ''u1''" by (simp add: signed_in_def initial_state_def)
  have c: "db_create env_offline_full = None"
    by (simp add: env_offline_full_def env_offline_def)
  have t: "setItem_throws env_offline_full" by (simp add: env_offline_full_def)
  have "toasts signed_in = []" and "localStorage signed_in = Map.empty"
    by (simp_all add: signed_in_def initial_state_def)
  with u c t show ?thesis
    using saveSession_fallback(2,4) [OF remote_create_signed_in [OF u c], of "''hello''" 5]
    by simp
qed

text \<open>
  C1 as amended. When the remote create fails for a signed-in user, the caller sees
  only the success toast "Session saved locally!", no error toast, and the remote table
  is unchanged; the failed create is logged to the console. If \<^verbatim>\<open>setItem\<close> does not
  throw, the user's key then holds the array whose first entry is the new record, with
  the given text and duration and the selected language, and nothing else is logged; if
  it throws, the error is caught and logged to the console as well, and local storage is
  as before.
\<close>

theorem saveSession_remote_failure:
  assumes "user st = Some uid" and "db_create e = None"
  shows "toasts (saveSession st e t d) = toasts st @ [Toast_success ''Session saved locally!'']
         \<and> remote (saveSession st e t d) = remote st
         \<and> (\<not> setItem_throws e \<longrightarrow>
              (\<exists>s. localStorage (saveSession st e t d) (storage_key uid)
                      = Some (stringify_sessions (s # take 9 (sessions st)))
                    \<and> s_text s = t \<and> s_duration s = d \<and> s_language s = selectedLanguage st)
              \<and> console (saveSession st e t d)
                  = console st @ [''Failed to save session to database:''])
         \<and> (setItem_throws e \<longrightarrow>
              localStorage (saveSession st e t d) = localStorage st
              \<and> console (saveSession st e t d)
                  = console st @ [''Failed to save session to database:'',
                                  ''Failed to save sessions to local storage:''])"
proof -
  have f: "remote_create st e t d = None"
    using assms by (rule remote_create_signed_in)
  have c: "console (saveSession st e t d) =
             console st @ [''Failed to save session to database:'']
               @ (if setItem_throws e then [''Failed to save sessions to local storage:''] else [])"
    using assms(1) by (simp add: console_saveSession_fallback [OF f])
  have n: "s_text (newSession st e t d) = t \<and> s_duration (newSession st e t d) = d
           \<and> s_language (newSession st e t d) = selectedLanguage st"
    by (simp add: newSession_def)
  have "\<not> setItem_throws e \<longrightarrow>
          localStorage (saveSession st e t d) (storage_key uid)
            = Some (stringify_sessions (newSession st e t d # take 9 (sessions st)))"
    using assms(1) by (simp add: saveSession_fallback(4) [OF f])
  with n have "\<not> setItem_throws e \<longrightarrow>
      (\<exists>s. localStorage (saveSession st e t d) (storage_key uid)
              = Some (stringify_sessions (s # take 9 (sessions st)))
            \<and> s_text s = t \<and> s_duration s = d \<and> s_language s = selectedLanguage st)"
    by blast
  moreover have "setItem_throws e \<longrightarrow> localStorage (saveSession st e t d) = localStorage st"
    using assms(1) by (simp add: saveSession_fallback(4) [OF f])
  moreover have "\<not> setItem_throws e \<longrightarrow>
      console (saveSession st e t d) = console st @ [''Failed to save session to database:'']"
    by (simp add: c)
  moreover have "setItem_throws e \<longrightarrow>
      console (saveSession st e t d)
        = console st @ [''Failed to save session to database:'',
                        ''Failed to save sessions to local storage:'']"
    by (simp add: c)
  ultimately show ?thesis
    using saveSession_fallback(2,3) [OF f] by simp
qed

theorem saveSession_remote_failure_witness:
  "user signed_in = Some ''u1'' \<and> db_create env_offline = None \<and> \<not> setItem_throws env_offline
   \<and> toasts (saveSession signed_in env_offline ''hello'' 5) = [Toast_success ''Session saved locally!'']
   \<and> (\<exists>s. localStorage (saveSession signed_in env_offline ''hello'' 5) (storage_key ''u1'')
             = Some (stringify_sessions [s])
           \<and> s_text s = ''hello'' \<and> s_duration s = 5 \<and> s_language s = ''en'')
   \<and> console (saveSession signed_in env_offline ''hello'' 5) = [''Failed to save session to database:'']
   \<and> setItem_throws env_offline_full
   \<and> localStorage (saveSession signed_in env_offline_full ''hello'' 5) = Map.empty
   \<and> console (saveSession signed_in env_offline_full ''hello'' 5)
       = [''Failed to save session to database:'', ''Failed to save sessions to local storage:'']"
proof -
  have u: "user signed_in = Some ''u1''" by (simp add: signed_in_def initial_state_def)
  have c: "db_create env_offline = None" and c': "db_create env_offline_full = None"
    by (simp_all add: env_offline_full_def env_offline_def)
  have t: "\<not> setItem_throws env_offline" and t': "setItem_throws env_offline_full"
    by (simp_all add: env_offline_full_def env_offline_def env_ok_def)
  have s: "toasts signed_in = []" "localStorage signed_in = Map.empty" "sessions signed_in = []"
    "selectedLanguage signed_in = ''en''" "console signed_in = []"
    by (simp_all add: signed_in_def initial_state_def)
  from saveSession_remote_failure [OF u c, of "''hello''" 5] t s
  have "toasts (saveSession signed_in env_offline ''hello'' 5) = [Toast_success ''Session saved locally!'']
        \<and> (\<exists>s. localStorage (saveSession signed_in env_offline ''hello'' 5) (storage_key ''u1'')
             = Some (stringify_sessions [s])
           \<and> s_text s = ''hello'' \<and> s_duration s = 5 \<and> s_language s = ''en'')
        \<and> console (saveSession signed_in env_offline ''hello'' 5) = [''Failed to save session to database:'']"
    by simp
  moreover from saveSession_remote_failure [OF u c', of "''hello''" 5] t' s
  have "localStorage (saveSession signed_in env_offline_full ''hello'' 5) = Map.empty
        \<and> console (saveSession signed_in env_offline_full ''hello'' 5)
            = [''Failed to save session to database:'', ''Failed to save sessions to local storage:'']"
    by simp
  ultimately show ?thesis using u c t t' by simp
qed



lemma loadSessions_remote_capped:
  "user st = Some uid \<Longrightarrow> db_list_ok e \<Longrightarrow> length (sessions (loadSessions st e)) \<le> 10"
  by (simp add: loadSessions_def db_list_def)




subsection \<open>Deleting a session\<close>

lemma deleteSession_fields:
  "sessions (deleteSession st e i) = filter (\<lambda>s. s_id s \<noteq> i) (sessions st)"
  "remote (deleteSession st e i) =
     (if db_delete_ok e then filter (\<lambda>r. row_id r \<noteq> i) (remote st) else remote st)"
  "toasts (deleteSession st e i) =
     toasts st @ [Toast_success (if db_delete_ok e then ''Session deleted!'' else ''Session deleted locally!'')]"
  "localStorage (deleteSession st e i) =
     (if db_delete_ok e then localStorage st
      else case user st of
             None \<Rightarrow> localStorage st
           | Some uid \<Rightarrow> if setItem_throws e then localStorage st
                         else (localStorage st)(storage_key uid \<mapsto>
                                stringify_sessions (filter (\<lambda>s. s_id s \<noteq> i) (sessions st))))"
  by (simp_all add: deleteSession_def Let_def toast_success_def console_error_def
      saveSessionsToLocalStorage_def split: option.splits)

lemma console_deleteSession:
  "console (deleteSession st e i) =
     (if db_delete_ok e then console st
      else console st @ [''Failed to delete session from database:'']
             @ (case user st of
                  None \<Rightarrow> [''Failed to save sessions to local storage:'']
                | Some uid \<Rightarrow> if setItem_throws e then [''Failed to save sessions to local storage:'']
                              else []))"
  by (simp add: deleteSession_def Let_def toast_success_def console_error_def
      saveSessionsToLocalStorage_def split: option.splits)

lemma stored_ids_update:
  "localStorage st (storage_key uid) = Some (stringify_sessions ss) \<Longrightarrow> stored_ids st uid = map s_id ss"
  by (simp add: stored_ids_def parse_stringify_sessions)

lemma remotely_saved_eq:
  "remotely_saved =
     signed_in\<lparr>sessions := [(newSession signed_in env_ok ''hello'' 5)\<lparr>s_id := ''row_1''\<rparr>],
               remote := [\<lparr>row_id = ''row_1'', row_userId = ''u1'', row_text = ''hello'',
                           row_language = ''en'', row_duration = 5, row_createdAt = 1700000000000\<rparr>],
               toasts := [Toast_success ''Session saved!'']\<rparr>"
  by (simp add: remotely_saved_def saveSession_def remote_create_def toast_success_def
      signed_in_def initial_state_def env_ok_def)

text \<open>
  C3 as stated: a session of the list is removed from the list and from the store that
  holds it, the local one when the remote delete fails. The session \<open>local_id\<close> is in
  the list and in local storage; with the backend unreachable and \<^verbatim>\<open>setItem\<close>
  throwing, \<^verbatim>\<open>deleteSession\<close> reports "Session deleted locally!" and local storage
  still holds it.
\<close>

theorem deleteSession_local_write_counterexample:
  "local_id \<in> s_id ` set (sessions locally_saved)
   \<and> local_id \<in> set (stored_ids locally_saved ''u1'')
   \<and> \<not> db_delete_ok env_offline_full
   \<and> toasts (deleteSession locally_saved env_offline_full local_id)
       = [Toast_success ''Session saved locally!'', Toast_success ''Session deleted locally!'']
   \<and> local_id \<in> set (stored_ids (deleteSession locally_saved env_offline_full local_id) ''u1'')"
proof -
  have e: "\<not> db_delete_ok env_offline_full" "setItem_throws env_offline_full"
    by (simp_all add: env_offline_full_def env_offline_def)
  have s: "sessions locally_saved = [newSession signed_in env_offline ''hello'' 5]"
    and t: "toasts locally_saved = [Toast_success ''Session saved locally!'']"
    and u: "user locally_saved = Some ''u1''"
    and l: "localStorage locally_saved (storage_key ''u1'')
              = Some (stringify_sessions [newSession signed_in env_offline ''hello'' 5])"
    by (simp_all add: locally_saved_eq signed_in_def initial_state_def)
  from l have i: "stored_ids locally_saved ''u1'' = [local_id]"
    by (simp add: stored_ids_update local_id_def)
  have "localStorage (deleteSession locally_saved env_offline_full local_id) = localStorage locally_saved"
    using e u by (simp add: deleteSession_fields(4))
  then have "stored_ids (deleteSession locally_saved env_offline_full local_id) ''u1''
               = stored_ids locally_saved ''u1''"
    by (simp add: stored_ids_def)
  with i s t e show ?thesis
    by (simp add: deleteSession_fields(3) local_id_def)
qed

text \<open>
  C3 as amended. \<^verbatim>\<open>deleteSession(id)\<close> removes every session with that id from the
  list. When the remote delete succeeds, the remote table has no row with that id and
  local storage and the console are not touched. When it fails, the remote table is
  unchanged and the failure is logged to the console; for a signed-in user whose
  \<^verbatim>\<open>setItem\<close> does not throw, the user's key then holds the filtered list, so local
  storage has no session with that id, and nothing else is logged; if \<^verbatim>\<open>setItem\<close>
  throws, the error is caught and logged to the console as well, and local storage is as
  before.
\<close>

theorem deleteSession_removes:
  "sessions (deleteSession st e sessionId) = filter (\<lambda>s. s_id s \<noteq> sessionId) (sessions st)
   \<and> sessionId \<notin> s_id ` set (sessions (deleteSession st e sessionId))
   \<and> (db_delete_ok e \<longrightarrow>
        sessionId \<notin> row_id ` set (remote (deleteSession st e sessionId))
        \<and> localStorage (deleteSession st e sessionId) = localStorage st
        \<and> console (deleteSession st e sessionId) = console st
        \<and> toasts (deleteSession st e sessionId) = toasts st @ [Toast_success ''Session deleted!''])
   \<and> (\<not> db_delete_ok e \<longrightarrow>
        remote (deleteSession st e sessionId) = remote st
        \<and> toasts (deleteSession st e sessionId) = toasts st @ [Toast_success ''Session deleted locally!'']
        \<and> (\<exists>more. console (deleteSession st e sessionId)
                     = console st @ ''Failed to delete session from database:'' # more)
        \<and> (\<forall>uid. user st = Some uid \<and> \<not> setItem_throws e \<longrightarrow>
              localStorage (deleteSession st e sessionId) (storage_key uid)
                = Some (stringify_sessions (filter (\<lambda>s. s_id s \<noteq> sessionId) (sessions st)))
              \<and> sessionId \<notin> set (stored_ids (deleteSession st e sessionId) uid)
              \<and> console (deleteSession st e sessionId)
                  = console st @ [''Failed to delete session from database:''])
        \<and> (setItem_throws e \<longrightarrow>
              localStorage (deleteSession st e sessionId) = localStorage st
              \<and> console (deleteSession st e sessionId)
                  = console st @ [''Failed to delete session from database:'',
                                  ''Failed to save sessions to local storage:'']))"
proof -
  have a: "sessionId \<notin> s_id ` set (sessions (deleteSession st e sessionId))"
    by (auto simp add: deleteSession_fields(1))
  have b: "db_delete_ok e \<longrightarrow>
        sessionId \<notin> row_id ` set (remote (deleteSession st e sessionId))
        \<and> localStorage (deleteSession st e sessionId) = localStorage st
        \<and> console (deleteSession st e sessionId) = console st
        \<and> toasts (deleteSession st e sessionId) = toasts st @ [Toast_success ''Session deleted!'']"
    by (auto simp add: deleteSession_fields console_deleteSession)
  have c: "localStorage (deleteSession st e sessionId) (storage_key uid)
                = Some (stringify_sessions (filter (\<lambda>s. s_id s \<noteq> sessionId) (sessions st)))
           \<and> sessionId \<notin> set (stored_ids (deleteSession st e sessionId) uid)
           \<and> console (deleteSession st e sessionId)
               = console st @ [''Failed to delete session from database:'']"
    if "\<not> db_delete_ok e" and "user st = Some uid" and "\<not> setItem_throws e" for uid
  proof -
    from that have k: "console (deleteSession st e sessionId)
               = console st @ [''Failed to delete session from database:'']"
      by (simp add: console_deleteSession)
    from that have l: "localStorage (deleteSession st e sessionId) (storage_key uid)
                = Some (stringify_sessions (filter (\<lambda>s. s_id s \<noteq> sessionId) (sessions st)))"
      by (simp add: deleteSession_fields(4))
    then have "stored_ids (deleteSession st e sessionId) uid
                 = map s_id (filter (\<lambda>s. s_id s \<noteq> sessionId) (sessions st))"
      by (rule stored_ids_update)
    then have "sessionId \<notin> set (stored_ids (deleteSession st e sessionId) uid)" by auto
    with l k show ?thesis by simp
  qed
  have d: "\<not> db_delete_ok e \<longrightarrow>
        remote (deleteSession st e sessionId) = remote st
        \<and> toasts (deleteSession st e sessionId) = toasts st @ [Toast_success ''Session deleted locally!'']
        \<and> (\<exists>more. console (deleteSession st e sessionId)
                     = console st @ ''Failed to delete session from database:'' # more)
        \<and> (setItem_throws e \<longrightarrow>
              localStorage (deleteSession st e sessionId) = localStorage st
              \<and> console (deleteSession st e sessionId)
                  = console st @ [''Failed to delete session from database:'',
                                  ''Failed to save sessions to local storage:''])"
    by (simp add: deleteSession_fields console_deleteSession split: option.splits)
  from a b c d show ?thesis
    by (simp only: deleteSession_fields(1)) blast
qed

theorem deleteSession_removes_witness:
  "db_delete_ok env_ok \<and> ''row_1'' \<in> s_id ` set (sessions remotely_saved)
   \<and> ''row_1'' \<in> row_id ` set (remote remotely_saved)
   \<and> sessions (deleteSession remotely_saved env_ok ''row_1'') = []
   \<and> remote (deleteSession remotely_saved env_ok ''row_1'') = []
   \<and> \<not> db_delete_ok env_offline \<and> user locally_saved = Some ''u1'' \<and> \<not> setItem_throws env_offline
   \<and> local_id \<in> set (stored_ids locally_saved ''u1'')
   \<and> sessions (deleteSession locally_saved env_offline local_id) = []
   \<and> localStorage (deleteSession locally_saved env_offline local_id) (storage_key ''u1'')
       = Some (stringify_sessions [])
   \<and> local_id \<notin> set (stored_ids (deleteSession locally_saved env_offline local_id) ''u1'')
   \<and> setItem_throws env_offline_full
   \<and> console (deleteSession locally_saved env_offline_full local_id)
       = [''Failed to save session to database:'', ''Failed to delete session from database:'',
          ''Failed to save sessions to local storage:'']"
proof -
  have e: "db_delete_ok env_ok" "\<not> db_delete_ok env_offline" "\<not> setItem_throws env_offline"
    by (simp_all add: env_offline_def env_ok_def)
  have e': "\<not> db_delete_ok env_offline_full" "setItem_throws env_offline_full"
    by (simp_all add: env_offline_full_def env_offline_def)
  have k: "console locally_saved = [''Failed to save session to database:'']"
    by (simp add: locally_saved_eq)
  note full = deleteSession_removes [of locally_saved env_offline_full local_id]
  from full e' have "console (deleteSession locally_saved env_offline_full local_id)
      = console locally_saved @ [''Failed to delete session from database:'',
                                 ''Failed to save sessions to local storage:'']"
    by blast
  with k have g: "console (deleteSession locally_saved env_offline_full local_id)
       = [''Failed to save session to database:'', ''Failed to delete session from database:'',
          ''Failed to save sessions to local storage:'']"
    by simp
  have r: "sessions remotely_saved = [(newSession signed_in env_ok ''hello'' 5)\<lparr>s_id := ''row_1''\<rparr>]"
    "row_id ` set (remote remotely_saved) = {''row_1''}"
    by (simp_all add: remotely_saved_eq)
  have s: "sessions locally_saved = [newSession signed_in env_offline ''hello'' 5]"
    and u: "user locally_saved = Some ''u1''"
    and l: "localStorage locally_saved (storage_key ''u1'')
              = Some (stringify_sessions [newSession signed_in env_offline ''hello'' 5])"
    by (simp_all add: locally_saved_eq signed_in_def initial_state_def)
  from l have i: "stored_ids locally_saved ''u1'' = [local_id]"
    by (simp add: stored_ids_update local_id_def)
  note ok = deleteSession_removes [of remotely_saved env_ok "''row_1''"]
  note off = deleteSession_removes [of locally_saved env_offline local_id]
  from ok r have a: "sessions (deleteSession remotely_saved env_ok ''row_1'') = []"
    by simp
  from ok e(1) have "''row_1'' \<notin> row_id ` set (remote (deleteSession remotely_saved env_ok ''row_1''))"
    by blast
  moreover have "row_id ` set (remote (deleteSession remotely_saved env_ok ''row_1'')) \<subseteq> {''row_1''}"
    using r(2) by (auto simp add: deleteSession_fields(2))
  ultimately have b: "remote (deleteSession remotely_saved env_ok ''row_1'') = []"
    by (cases "remote (deleteSession remotely_saved env_ok ''row_1'')") auto
  from off s have c: "sessions (deleteSession locally_saved env_offline local_id) = []"
    by (simp add: local_id_def)
  from off e(2,3) u
  have "localStorage (deleteSession locally_saved env_offline local_id) (storage_key ''u1'')
          = Some (stringify_sessions (filter (\<lambda>s. s_id s \<noteq> local_id) (sessions locally_saved)))
        \<and> local_id \<notin> set (stored_ids (deleteSession locally_saved env_offline local_id) ''u1'')"
    by blast
  with s have d: "localStorage (deleteSession locally_saved env_offline local_id) (storage_key ''u1'')
          = Some (stringify_sessions [])
        \<and> local_id \<notin> set (stored_ids (deleteSession locally_saved env_offline local_id) ''u1'')"
    by (simp add: local_id_def)
  from e e'(2) r(2) u i a b c d g show ?thesis
    by (simp add: r(1))
qed

end
